theory Spec2Isabelle
  imports
    Main
    "HOL-Library.Char_ord"
    "HOL-Library.List_Lexorder"
    "HOL-Library.Multiset"
    "HOL-Library.AList"
begin

section \<open>Python values\<close>

text \<open>
  The payload of a transaction, its quantity-resolution mapping and the view entries built
  from them are JSON values as Python holds them: \<open>None\<close>, booleans, integers, strings,
  lists and dictionaries with string keys. A dictionary keeps its insertion order, so it is
  an association list; Python never holds a key twice. Strings
  are lists of characters with code points below 256, ordered by code point, and compared
  lexicographically as Python compares \<open>str\<close>. Floating-point numbers are left out.
\<close>

datatype json =
    JNull
  | JBool bool
  | JInt int
  | JStr string
  | JList "json list"
  | JObj "(string \<times> json) list"

type_synonym pydict = "(string \<times> json) list"

datatype error =
    KeyError json
  | TypeError
  | IndexError
  | ValueError
  | AttributeError

text \<open>Truth value of a value under \<open>if v:\<close>.\<close>

fun py_truthy :: "json \<Rightarrow> bool" where
  "py_truthy JNull = False"
| "py_truthy (JBool b) = b"
| "py_truthy (JInt i) = (i \<noteq> 0)"
| "py_truthy (JStr s) = (s \<noteq> [])"
| "py_truthy (JList xs) = (xs \<noteq> [])"
| "py_truthy (JObj d) = (d \<noteq> [])"

text \<open>\<open>isinstance(v, str)\<close>.\<close>

fun py_is_str :: "json \<Rightarrow> bool" where
  "py_is_str (JStr s) = True"
| "py_is_str v = False"

text \<open>Indexing a sequence: a negative index counts from the end, out of range raises.\<close>

definition py_index :: "'a list \<Rightarrow> int \<Rightarrow> error + 'a" where
  "py_index xs i =
     (if 0 \<le> i \<and> i < int (length xs) then Inr (xs ! nat i)
      else if i < 0 \<and> - int (length xs) \<le> i then Inr (xs ! nat (int (length xs) + i))
      else Inl IndexError)"

text \<open>
  The subscript \<open>c[k]\<close>. A dictionary raises \<open>KeyError\<close> for a hashable key it does
  not hold (its keys are strings) and \<open>TypeError\<close> for an unhashable one; a list and a
  string take an integer (a boolean counts as 0 or 1); nothing else can be subscripted.
\<close>

fun py_getitem :: "json \<Rightarrow> json \<Rightarrow> error + json" where
  "py_getitem (JObj d) (JStr k) =
     (case map_of d k of Some v \<Rightarrow> Inr v | None \<Rightarrow> Inl (KeyError (JStr k)))"
| "py_getitem (JObj d) (JList xs) = Inl TypeError"
| "py_getitem (JObj d) (JObj e) = Inl TypeError"
| "py_getitem (JObj d) k = Inl (KeyError k)"
| "py_getitem (JList xs) (JInt i) = py_index xs i"
| "py_getitem (JList xs) (JBool b) = py_index xs (if b then 1 else 0)"
| "py_getitem (JList xs) k = Inl TypeError"
| "py_getitem (JStr s) (JInt i) =
     (case py_index s i of Inl e \<Rightarrow> Inl e | Inr c \<Rightarrow> Inr (JStr [c]))"
| "py_getitem (JStr s) (JBool b) =
     (case py_index s (if b then 1 else 0) of Inl e \<Rightarrow> Inl e | Inr c \<Rightarrow> Inr (JStr [c]))"
| "py_getitem (JStr s) k = Inl TypeError"
| "py_getitem c k = Inl TypeError"

text \<open>The elements a \<open>for\<close> loop visits.\<close>

fun py_iter :: "json \<Rightarrow> error + json list" where
  "py_iter (JList xs) = Inr xs"
| "py_iter (JStr s) = Inr (map (\<lambda>c. JStr [c]) s)"
| "py_iter (JObj d) = Inr (map (\<lambda>kv. JStr (fst kv)) d)"
| "py_iter v = Inl TypeError"

text \<open>\<open>d[k]\<close> on a dictionary built by the view, with a string key.\<close>

definition dict_get :: "pydict \<Rightarrow> string \<Rightarrow> error + json" where
  "dict_get d k = (case map_of d k of Some v \<Rightarrow> Inr v | None \<Rightarrow> Inl (KeyError (JStr k)))"

section \<open>json.dumps with separators (',', ':')\<close>

definition hex_digit :: "nat \<Rightarrow> char" where
  "hex_digit d = ''0123456789abcdef'' ! d"

fun decimal :: "nat \<Rightarrow> string" where
  "decimal n = (if n < 10 then [hex_digit n] else decimal (n div 10) @ [hex_digit (n mod 10)])"

definition int_repr :: "int \<Rightarrow> string" where
  "int_repr i = (if i < 0 then CHR ''-'' # decimal (nat (- i)) else decimal (nat i))"

text \<open>
  A string is written between double quotes. With \<open>ensure_ascii\<close> (the default) the
  quote and the backslash are escaped, the control characters have their short escapes or
  \<open>\u00XX\<close>, and every character outside the printable ASCII range is written
  \<open>\u00XX\<close> in lower-case hexadecimal. The output is ASCII, so its UTF-8 encoding is
  the same bytes.
\<close>

definition encode_char :: "char \<Rightarrow> string" where
  "encode_char c =
     (if c = CHR 0x22 then [CHR 0x5C, CHR 0x22]
      else if c = CHR 0x5C then [CHR 0x5C, CHR 0x5C]
      else if c = CHR 0x08 then [CHR 0x5C, CHR ''b'']
      else if c = CHR 0x0C then [CHR 0x5C, CHR ''f'']
      else if c = CHR 0x0A then [CHR 0x5C, CHR ''n'']
      else if c = CHR 0x0D then [CHR 0x5C, CHR ''r'']
      else if c = CHR 0x09 then [CHR 0x5C, CHR ''t'']
      else if 0x20 \<le> (of_char c :: nat) \<and> (of_char c :: nat) \<le> 0x7E then [c]
      else [CHR 0x5C, CHR ''u'', CHR ''0'', CHR ''0'',
            hex_digit (of_char c div 16), hex_digit (of_char c mod 16)])"

definition dumps_str :: "string \<Rightarrow> string" where
  "dumps_str s = CHR 0x22 # concat (map encode_char s) @ [CHR 0x22]"

fun json_dumps :: "json \<Rightarrow> string"
  and dumps_elems :: "json list \<Rightarrow> string"
  and dumps_items :: "(string \<times> json) list \<Rightarrow> string" where
  "json_dumps JNull = ''null''"
| "json_dumps (JBool b) = (if b then ''true'' else ''false'')"
| "json_dumps (JInt i) = int_repr i"
| "json_dumps (JStr s) = dumps_str s"
| "json_dumps (JList xs) = ''['' @ dumps_elems xs @ '']''"
| "json_dumps (JObj d) = ''{'' @ dumps_items d @ ''}''"
| "dumps_elems [] = []"
| "dumps_elems (x # xs) = json_dumps x @ (if xs = [] then [] else '','' @ dumps_elems xs)"
| "dumps_items [] = []"
| "dumps_items (kv # d) =
     dumps_str (fst kv) @ '':'' @ json_dumps (snd kv) @
     (if d = [] then [] else '','' @ dumps_items d)"

section \<open>bytes.fromhex\<close>

definition hex_value :: "char \<Rightarrow> nat option" where
  "hex_value c =
     (let n = (of_char c :: nat) in
      if 0x30 \<le> n \<and> n \<le> 0x39 then Some (n - 0x30)
      else if 0x61 \<le> n \<and> n \<le> 0x66 then Some (n - 0x61 + 10)
      else if 0x41 \<le> n \<and> n \<le> 0x46 then Some (n - 0x41 + 10)
      else None)"

definition is_space :: "char \<Rightarrow> bool" where
  "is_space c = (c \<in> set [CHR 0x20, CHR 0x09, CHR 0x0A, CHR 0x0B, CHR 0x0C, CHR 0x0D])"

text \<open>
  Two hexadecimal digits per byte, ASCII whitespace between bytes skipped; anything else
  raises \<open>ValueError\<close>.
\<close>

fun bytes_fromhex :: "string \<Rightarrow> error + nat list" where
  "bytes_fromhex [] = Inr []"
| "bytes_fromhex [c] = (if is_space c then Inr [] else Inl ValueError)"
| "bytes_fromhex (c # d # cs) =
     (if is_space c then bytes_fromhex (d # cs)
      else case hex_value c of
        None \<Rightarrow> Inl ValueError
      | Some hi \<Rightarrow>
          (case hex_value d of
             None \<Rightarrow> Inl ValueError
           | Some lo \<Rightarrow>
               (case bytes_fromhex cs of
                  Inl e \<Rightarrow> Inl e
                | Inr bs \<Rightarrow> Inr ((hi * 16 + lo) # bs))))"

section \<open>models.py\<close>

record Key =
  hash :: string
  public_key :: string
  current_status :: string
  name :: string
  description :: "string option"

record Transaction =
  hash :: string
  type :: int
  mode :: int
  transmitter :: Key
  receiver :: "Key option"
  server_timestamp :: int
  client_timestamp :: int
  raw_client_timestamp :: string
  transaction_data :: json
  sign :: string
  updated_quantity :: json
  errors :: "string list"

record TransactionInput =
  t_hash :: string
  input :: string
  product :: string

text \<open>
  The library functions the repository calls and does not define: the SHA-256 digest of a
  byte string in hexadecimal, the parser of RSA key material (it raises on what it cannot
  parse), the PKCS#1 v1.5 verifier (key, digest of the message, signature bytes), and
  Python's \<open>str()\<close>, which a character field applies to a lookup value that is not a
  string, and the database's answer to a query that has no \<open>ORDER BY\<close>: the rows
  that match, arranged as the database chooses (\<open>query_order\<close> arranges them).
\<close>

record 'k library =
  sha256_hexdigest :: "string \<Rightarrow> string"
  RSA_importKey :: "string \<Rightarrow> error + 'k"
  PKCS1_verify :: "'k \<Rightarrow> string \<Rightarrow> nat list \<Rightarrow> bool"
  py_str :: "json \<Rightarrow> string"
  query_order :: "TransactionInput list \<Rightarrow> TransactionInput list"

text \<open>
  Lines 57 to 63 of \<open>Transaction.verify_sign\<close>: the payload's items sorted (keys are
  distinct, so by key), the fields appended in the order of the source, the whole written
  by \<open>json.dumps\<close>. \<open>.items()\<close> exists on a dictionary only.
\<close>

definition serialized_transaction :: "Transaction \<Rightarrow> error + string" where
  "serialized_transaction obj =
     (case transaction_data obj of
        JObj d \<Rightarrow>
          (let ordered_data = sort_key fst d;
               transaction0 = [(''type'', JInt (type obj)), (''mode'', JInt (mode obj)),
                               (''transmitter'', JStr (Key.hash (transmitter obj)))];
               transaction1 = (case receiver obj of
                                 Some r \<Rightarrow> transaction0 @ [(''receiver'', JStr (Key.hash r))]
                               | None \<Rightarrow> transaction0);
               transaction2 = transaction1 @
                               [(''timestamp'', JStr (raw_client_timestamp obj)),
                                (''data'', JObj ordered_data)]
           in Inr (json_dumps (JObj transaction2)))
      | _ \<Rightarrow> Inl AttributeError)"

definition verify_sign :: "'k library \<Rightarrow> Transaction \<Rightarrow> error + bool" where
  "verify_sign lib obj =
     (case serialized_transaction obj of
        Inl e \<Rightarrow> Inl e
      | Inr serialized \<Rightarrow>
          (let calculated_hash = sha256_hexdigest lib serialized in
           if hash obj \<noteq> calculated_hash then Inr False
           else case RSA_importKey lib (public_key (transmitter obj)) of
             Inl e \<Rightarrow> Inl e
           | Inr keyobject \<Rightarrow>
               (case bytes_fromhex (sign obj) of
                  Inl e \<Rightarrow> Inl e
                | Inr signature \<Rightarrow> Inr (PKCS1_verify lib keyobject calculated_hash signature))))"

section \<open>views.py\<close>

text \<open>
  The four helpers of \<open>TransactionDetail\<close> are loops \<open>for p in p_list\<close> that build or
  change one dictionary per element, in order, and stop at the first exception. Such a
  loop is \<open>for_each body\<close>: the results of the body in order, or the first error.
\<close>

fun for_each :: "('a \<Rightarrow> error + 'b) \<Rightarrow> 'a list \<Rightarrow> error + 'b list" where
  "for_each body [] = Inr []"
| "for_each body (p # ps) =
     (case body p of
        Inl e \<Rightarrow> Inl e
      | Inr l \<Rightarrow>
          (case for_each body ps of
             Inl e \<Rightarrow> Inl e
           | Inr ls \<Rightarrow> Inr (l # ls)))"

text \<open>
  \<open>make_product_list\<close>. Each element \<open>p\<close> of \<open>p_list\<close> gives one fresh dictionary:
  \<open>p[0]\<close> under \<open>product\<close>, then \<open>newid\<close> when it is truthy, else \<open>p[1]\<close> under
  \<open>id\<close> when it is a string and under \<open>quantity\<close> otherwise. \<open>p[1]\<close> is read only
  when \<open>newid\<close> is not truthy. The default \<open>newid = None\<close> is \<open>JNull\<close>.
\<close>

definition make_entry :: "json \<Rightarrow> json \<Rightarrow> error + pydict" where
  "make_entry newid p =
     (case py_getitem p (JInt 0) of
        Inl e \<Rightarrow> Inl e
      | Inr p0 \<Rightarrow>
          (let l = AList.update ''product'' p0 [] in
           if py_truthy newid then Inr (AList.update ''newid'' newid l)
           else case py_getitem p (JInt 1) of
             Inl e \<Rightarrow> Inl e
           | Inr p1 \<Rightarrow>
               if py_is_str p1 then Inr (AList.update ''id'' p1 l)
               else Inr (AList.update ''quantity'' p1 l)))"

definition make_product_list :: "json \<Rightarrow> json \<Rightarrow> error + pydict list" where
  "make_product_list p_list newid =
     (case py_iter p_list of
        Inl e \<Rightarrow> Inl e
      | Inr ps \<Rightarrow> for_each (make_entry newid) ps)"

text \<open>
  \<open>set_quantity\<close>: an entry that has the key \<open>quantity\<close> with the value \<open>None\<close> gets
  \<open>updated_quantity[p['product']]\<close>; every other entry is left as it is. The lookup is
  a plain subscript, so it raises when it fails.
\<close>

definition set_quantity_entry :: "json \<Rightarrow> pydict \<Rightarrow> error + pydict" where
  "set_quantity_entry uq p =
     (if map_of p ''quantity'' = Some JNull then
        (case dict_get p ''product'' of
           Inl e \<Rightarrow> Inl e
         | Inr code \<Rightarrow>
             (case py_getitem uq code of
                Inl e \<Rightarrow> Inl e
              | Inr v \<Rightarrow> Inr (AList.update ''quantity'' v p)))
      else Inr p)"

definition set_quantity :: "pydict list \<Rightarrow> json \<Rightarrow> error + pydict list" where
  "set_quantity p_list uq = for_each (set_quantity_entry uq) p_list"

text \<open>
  An exact lookup on the character field \<open>product\<close>: \<open>None\<close> matches no row (the
  column is never null), a string matches the rows holding it, and any other value is
  compared through \<open>str()\<close>.
\<close>

definition charfield_exact :: "'k library \<Rightarrow> json \<Rightarrow> string \<Rightarrow> bool" where
  "charfield_exact lib v s =
     (case v of JNull \<Rightarrow> False | JStr t \<Rightarrow> t = s | _ \<Rightarrow> py_str lib v = s)"

text \<open>
  \<open>set_pre_transactions\<close> and \<open>set_post_transactions\<close>: the link table is the list of
  its rows, a query keeps the rows that match, the database returns them in an order of
  its own (neither query has an \<open>order_by\<close> and the table has no default
  ordering), and \<open>values_list(..., flat=True)\<close> reads one column of them.
\<close>

definition set_pre_entry ::
  "'k library \<Rightarrow> TransactionInput list \<Rightarrow> string \<Rightarrow> pydict \<Rightarrow> error + pydict" where
  "set_pre_entry lib rows h p =
     (case dict_get p ''product'' of
        Inl e \<Rightarrow> Inl e
      | Inr code \<Rightarrow>
          (let in_list = map input
                 (query_order lib (filter (\<lambda>r. t_hash r = h \<and> charfield_exact lib code (product r)) rows))
           in Inr (AList.update ''pre'' (JList (map JStr in_list)) p)))"

definition set_pre_transactions ::
  "'k library \<Rightarrow> TransactionInput list \<Rightarrow> pydict list \<Rightarrow> string \<Rightarrow> error + pydict list" where
  "set_pre_transactions lib rows p_list h = for_each (set_pre_entry lib rows h) p_list"

definition set_post_entry ::
  "'k library \<Rightarrow> TransactionInput list \<Rightarrow> string \<Rightarrow> pydict \<Rightarrow> error + pydict" where
  "set_post_entry lib rows h p =
     (case dict_get p ''product'' of
        Inl e \<Rightarrow> Inl e
      | Inr code \<Rightarrow>
          (let out_list = map t_hash
                 (query_order lib (filter (\<lambda>r. input r = h \<and> charfield_exact lib code (product r)) rows))
           in Inr (AList.update ''post'' (JList (map JStr out_list)) p)))"

definition set_post_transactions ::
  "'k library \<Rightarrow> TransactionInput list \<Rightarrow> pydict list \<Rightarrow> string \<Rightarrow> error + pydict list" where
  "set_post_transactions lib rows p_list h = for_each (set_post_entry lib rows h) p_list"

text \<open>
  \<open>TransactionDetail.get_context_data\<close>, from the point where the transaction \<open>obj\<close>
  has been loaded. The context is a dictionary; the keys the base class puts there are
  left out. The lists stored under \<open>product\<close>, \<open>product_in\<close> and \<open>product_out\<close> are
  the ones the three setters change in place, so the context holds them as they are after
  the last setter. A payload that is not a dictionary has no \<open>.items()\<close>:
  \<open>verify_sign\<close> has raised before the payload is read here.
\<close>

definition get_context_data ::
  "'k library \<Rightarrow> TransactionInput list \<Rightarrow> Transaction \<Rightarrow> error + pydict" where
  "get_context_data lib rows obj =
     (case verify_sign lib obj of
        Inl e \<Rightarrow> Inl e
      | Inr verified \<Rightarrow>
          (case transaction_data obj of
             JObj td \<Rightarrow>
               (let context = [(''sign'', JBool verified)];
                    newid = (case map_of td ''new_id'' of Some v \<Rightarrow> v | None \<Rightarrow> JNull)
                in case map_of td ''product'' of
                  Some pl \<Rightarrow>
                    (case make_product_list pl newid of
                       Inl e \<Rightarrow> Inl e
                     | Inr l0 \<Rightarrow>
                    (case set_quantity l0 (updated_quantity obj) of
                       Inl e \<Rightarrow> Inl e
                     | Inr l1 \<Rightarrow>
                    (case set_pre_transactions lib rows l1 (hash obj) of
                       Inl e \<Rightarrow> Inl e
                     | Inr l2 \<Rightarrow>
                    (case set_post_transactions lib rows l2 (hash obj) of
                       Inl e \<Rightarrow> Inl e
                     | Inr l3 \<Rightarrow>
                         Inr (AList.update ''product'' (JList (map JObj l3)) context)))))
                | None \<Rightarrow>
                    (case py_getitem (JObj td) (JStr ''product_in'') of
                       Inl e \<Rightarrow> Inl e
                     | Inr pin \<Rightarrow>
                    (case make_product_list pin JNull of
                       Inl e \<Rightarrow> Inl e
                     | Inr in0 \<Rightarrow>
                    (case py_getitem (JObj td) (JStr ''product_out'') of
                       Inl e \<Rightarrow> Inl e
                     | Inr pout \<Rightarrow>
                    (case make_product_list pout newid of
                       Inl e \<Rightarrow> Inl e
                     | Inr out0 \<Rightarrow>
                    (case set_quantity in0 (updated_quantity obj) of
                       Inl e \<Rightarrow> Inl e
                     | Inr in1 \<Rightarrow>
                    (case set_pre_transactions lib rows in1 (hash obj) of
                       Inl e \<Rightarrow> Inl e
                     | Inr in2 \<Rightarrow>
                    (case set_post_transactions lib rows out0 (hash obj) of
                       Inl e \<Rightarrow> Inl e
                     | Inr out1 \<Rightarrow>
                         Inr (AList.update ''product_out'' (JList (map JObj out1))
                               (AList.update ''product_in'' (JList (map JObj in2))
                                  context))))))))))
           | _ \<Rightarrow> Inl AttributeError))"

section \<open>Vocabulary of the properties\<close>

text \<open>
  A character that \<open>json.dumps\<close> writes as itself: printable ASCII other than the double
  quote and the backslash.
\<close>

definition plain_char :: "char \<Rightarrow> bool" where
  "plain_char c =
     (0x20 \<le> (of_char c :: nat) \<and> (of_char c :: nat) \<le> 0x7E \<and> c \<noteq> CHR 0x22 \<and> c \<noteq> CHR 0x5C)"

text \<open>
  Logical content of a JSON value: the value with the keys of every dictionary in it, at
  every depth, put in ascending order. Two values hold the same content when these normal
  forms are equal, whatever order their keys were inserted in.
\<close>

fun sort_keys :: "json \<Rightarrow> json"
  and sort_keys_elems :: "json list \<Rightarrow> json list"
  and sort_keys_items :: "(string \<times> json) list \<Rightarrow> (string \<times> json) list" where
  "sort_keys (JObj d) = JObj (sort_key fst (sort_keys_items d))"
| "sort_keys (JList xs) = JList (sort_keys_elems xs)"
| "sort_keys JNull = JNull"
| "sort_keys (JBool b) = JBool b"
| "sort_keys (JInt i) = JInt i"
| "sort_keys (JStr s) = JStr s"
| "sort_keys_elems [] = []"
| "sort_keys_elems (x # xs) = sort_keys x # sort_keys_elems xs"
| "sort_keys_items [] = []"
| "sort_keys_items (kv # d) = (fst kv, sort_keys (snd kv)) # sort_keys_items d"

definition same_content :: "json \<Rightarrow> json \<Rightarrow> bool" where
  "same_content a b = (sort_keys a = sort_keys b)"

text \<open>
  The link rows read as the specification's lookups: the input-transaction identifiers of
  the rows owned by the transaction \<open>h\<close> for the product \<open>P\<close>, and the owning
  transactions of the rows whose input is \<open>h\<close> for the product \<open>P\<close>.
\<close>

definition link_inputs :: "TransactionInput list \<Rightarrow> string \<Rightarrow> string \<Rightarrow> string list" where
  "link_inputs rows h P = map input (filter (\<lambda>r. t_hash r = h \<and> product r = P) rows)"

definition link_owners :: "TransactionInput list \<Rightarrow> string \<Rightarrow> string \<Rightarrow> string list" where
  "link_owners rows h P = map t_hash (filter (\<lambda>r. input r = h \<and> product r = P) rows)"

section \<open>Example data\<close>

text \<open>
  The examples run the code on a stand-in library: the digest of a message is the decimal
  of its length, a key parses unless it is empty, and the only signature that verifies is
  the two bytes \<open>ab cd\<close>, and the database answers a query in the reverse of the
  table's order. The theorems below hold for every library.
\<close>

definition example_library :: "unit library" where
  "example_library =
     \<lparr>sha256_hexdigest = (\<lambda>s. decimal (length s)),
      RSA_importKey = (\<lambda>pem. if pem = [] then Inl ValueError else Inr ()),
      PKCS1_verify = (\<lambda>k h s. s = [171, 205]),
      py_str = json_dumps,
      query_order = rev\<rparr>"

definition key_A :: Key where
  "key_A = \<lparr>Key.hash = ''ka'', public_key = ''PEM-A'', current_status = ''active'',
            name = ''A'', description = None\<rparr>"

definition tx_B :: Transaction where
  "tx_B = \<lparr>hash = ''B'', type = 1, mode = 0, transmitter = key_A, receiver = None,
     server_timestamp = 0, client_timestamp = 0,
     raw_client_timestamp = ''2019-01-01T00:00:00.000Z'',
     transaction_data = JObj [(''product'', JList [JList [JStr ''P'', JInt 3]])],
     sign = ''abcd'', updated_quantity = JObj [], errors = []\<rparr>"

definition key_R :: Key where
  "key_R = \<lparr>Key.hash = ''kr'', public_key = ''PEM-R'', current_status = ''active'',
            name = ''R'', description = None\<rparr>"

definition tx_sorted :: Transaction where
  "tx_sorted = \<lparr>hash = ''0'', type = 2, mode = -1, transmitter = key_A,
     receiver = Some key_R, server_timestamp = 0, client_timestamp = 0,
     raw_client_timestamp = ''2019-01-01 00:00'',
     transaction_data =
       JObj [(''product'', JList [JList [JStr ''P1'', JNull]]), (''new_id'', JStr ''N1'')],
     sign = ''abcd'', updated_quantity = JObj [(''P1'', JInt 42)], errors = []\<rparr>"

definition tx_nested_xy :: Transaction where
  "tx_nested_xy = tx_B\<lparr>transaction_data := JObj [(''lot'', JObj [(''x'', JInt 1), (''y'', JInt 2)])]\<rparr>"

definition tx_nested_yx :: Transaction where
  "tx_nested_yx = tx_B\<lparr>transaction_data := JObj [(''lot'', JObj [(''y'', JInt 2), (''x'', JInt 1)])]\<rparr>"

definition tx_swapped :: Transaction where
  "tx_swapped = tx_sorted\<lparr>transaction_data :=
     JObj [(''new_id'', JStr ''N1''), (''product'', JList [JList [JStr ''P1'', JNull]])]\<rparr>"

definition tx_bad_sign :: Transaction where
  "tx_bad_sign = tx_B\<lparr>hash := ''106'', sign := ''zz''\<rparr>"

definition tx_wrong_sign :: Transaction where
  "tx_wrong_sign = tx_B\<lparr>hash := ''106'', sign := ''AB 0f''\<rparr>"

definition link_rows :: "TransactionInput list" where
  "link_rows = [\<lparr>t_hash = ''B'', input = ''A'', product = ''P''\<rparr>,
                \<lparr>t_hash = ''C'', input = ''B'', product = ''P''\<rparr>]"

definition link_rows_three :: "TransactionInput list" where
  "link_rows_three = [\<lparr>t_hash = ''B'', input = ''Z'', product = ''P''\<rparr>,
                      \<lparr>t_hash = ''B'', input = ''A'', product = ''P''\<rparr>,
                      \<lparr>t_hash = ''B'', input = ''M'', product = ''P''\<rparr>]"

definition tx_dual :: Transaction where
  "tx_dual = tx_B\<lparr>transaction_data :=
                 JObj [(''product_in'', JList [JList [JStr ''P'', JNull]]),
                       (''product_out'', JList [JList [JStr ''P'', JNull]])],
               updated_quantity := JObj [(''P'', JInt 42)]\<rparr>"

definition tx_no_shape :: Transaction where
  "tx_no_shape = tx_B\<lparr>transaction_data := JObj [(''note'', JStr ''x'')]\<rparr>"

definition example_pairs :: json where
  "example_pairs = JList [JList [JStr ''P1'', JNull], JList [JStr ''P2'', JStr ''id-7''],
                          JList [JStr ''P3'', JInt 7]]"

definition tx_empty_newid :: Transaction where
  "tx_empty_newid = tx_B\<lparr>transaction_data :=
      JObj [(''product'', JList [JList [JStr ''P1'', JStr ''old-id'']]), (''new_id'', JStr '''')]\<rparr>"

definition tx_dual_newid :: Transaction where
  "tx_dual_newid = tx_B\<lparr>transaction_data :=
                 JObj [(''product_in'', JList [JList [JStr ''P'', JNull]]),
                       (''product_out'', JList [JList [JStr ''P'', JStr ''old-id'']]),
                       (''new_id'', JStr ''N2'')],
               updated_quantity := JObj [(''P'', JInt 42)]\<rparr>"

definition tx_null_quantity :: Transaction where
  "tx_null_quantity = tx_B\<lparr>transaction_data := JObj [(''product'', JList [JList [JStr ''P1'', JNull]])],
                            updated_quantity := JObj [(''P1'', JInt 42)]\<rparr>"

definition tx_seven :: Transaction where
  "tx_seven = tx_B\<lparr>transaction_data := JObj [(''product'', JList [JList [JStr ''P1'', JInt 7]])],
                    updated_quantity := JObj [(''P1'', JInt 42)]\<rparr>"


definition tx_no_shape_zz :: Transaction where
  "tx_no_shape_zz = tx_no_shape\<lparr>hash := ''97'', sign := ''zz''\<rparr>"

definition tx_shaped_key :: Transaction where
  "tx_shaped_key = tx_B\<lparr>transaction_data :=
                       JObj [(''product'', JList [JList [JStr ''product_in'', JNull]])],
                     updated_quantity := JObj []\<rparr>"


section \<open>The canonical encoding\<close>

lemma encode_plain_char: "plain_char c \<Longrightarrow> encode_char c = [c]"
  by (auto simp: plain_char_def encode_char_def)

lemma concat_encode_plain: "list_all plain_char s \<Longrightarrow> concat (map encode_char s) = s"
  by (induction s) (simp_all add: encode_plain_char)

lemma dumps_str_plain: "list_all plain_char s \<Longrightarrow> dumps_str s = CHR 0x22 # s @ [CHR 0x22]"
  by (simp add: dumps_str_def concat_encode_plain)

lemma dumps_field_names:
  \<open>dumps_str ''type'' = ''"type"''\<close>
  \<open>dumps_str ''mode'' = ''"mode"''\<close>
  \<open>dumps_str ''transmitter'' = ''"transmitter"''\<close>
  \<open>dumps_str ''receiver'' = ''"receiver"''\<close>
  \<open>dumps_str ''timestamp'' = ''"timestamp"''\<close>
  \<open>dumps_str ''data'' = ''"data"''\<close>
  by (simp_all add: dumps_str_plain plain_char_def)

lemma serialized_tx_B:
  \<open>serialized_transaction tx_B =
     Inr ''{"type":1,"mode":0,"transmitter":"ka","timestamp":"2019-01-01T00:00:00.000Z","data":{"product":[["P",3]]}}''\<close>
  by (simp add: serialized_transaction_def tx_B_def key_A_def dumps_str_plain plain_char_def
        int_repr_def hex_digit_def)

text \<open>
  C2. For a transaction whose payload is the dictionary \<open>d\<close>, the bytes that are hashed
  are exactly: an opening brace; \<open>"type":\<close> and the type; \<open>,"mode":\<close> and the mode;
  \<open>,"transmitter":\<close> and the transmitter's key identifier; \<open>,"receiver":\<close> and the
  receiver's key identifier only when there is a receiver; \<open>,"timestamp":\<close> and the raw
  client timestamp string; \<open>,"data":\<close> and the payload's items written in the order of
  their sorted keys; a closing brace. The separators are \<open>,\<close> and \<open>:\<close> with no
  whitespace. The sorted items are the payload's items, in ascending key order. The raw
  timestamp goes through the string writer only: a timestamp of plain characters stands
  between its quotes as it is stored, and the parsed \<open>client_timestamp\<close> is not used.
\<close>

theorem canonical_encoding_layout:
  assumes \<open>transaction_data obj = JObj d\<close>
  shows \<open>serialized_transaction obj =
           Inr (''{"type":'' @ int_repr (type obj) @
                '',"mode":'' @ int_repr (mode obj) @
                '',"transmitter":'' @ dumps_str (Key.hash (transmitter obj)) @
                (case receiver obj of
                   None \<Rightarrow> []
                 | Some r \<Rightarrow> '',"receiver":'' @ dumps_str (Key.hash r)) @
                '',"timestamp":'' @ dumps_str (raw_client_timestamp obj) @
                '',"data":{'' @ dumps_items (sort_key fst d) @ ''}}'')
         \<and> sorted (map fst (sort_key fst d))
         \<and> mset (sort_key fst d) = mset d
         \<and> (list_all plain_char (raw_client_timestamp obj) \<longrightarrow>
              dumps_str (raw_client_timestamp obj) =
                CHR 0x22 # raw_client_timestamp obj @ [CHR 0x22])\<close>
  using assms
  by (simp add: serialized_transaction_def dumps_field_names dumps_str_plain split: option.split)

theorem canonical_encoding_layout_witness:
  \<open>transaction_data tx_sorted =
      JObj [(''product'', JList [JList [JStr ''P1'', JNull]]), (''new_id'', JStr ''N1'')]
   \<and> serialized_transaction tx_sorted =
      Inr ''{"type":2,"mode":-1,"transmitter":"ka","receiver":"kr","timestamp":"2019-01-01 00:00","data":{"new_id":"N1","product":[["P1",null]]}}''\<close>
  using canonical_encoding_layout
    [of tx_sorted "[(''product'', JList [JList [JStr ''P1'', JNull]]), (''new_id'', JStr ''N1'')]"]
  by (simp add: tx_sorted_def key_A_def key_R_def dumps_str_plain plain_char_def
        int_repr_def hex_digit_def)

lemma filter_same_key:
  "distinct (map fst xs) \<Longrightarrow> k \<in> set xs \<Longrightarrow> filter (\<lambda>x. fst k = fst x) xs = [k]"
proof (induction xs)
  case Nil
  then show ?case by simp
next
  case (Cons a xs)
  show ?case
  proof (cases "k = a")
    case True
    have "filter (\<lambda>x. fst a = fst x) xs = []"
      using Cons.prems(1) by (auto simp: filter_empty_conv)
    with True show ?thesis by simp
  next
    case False
    with Cons.prems have kin: "k \<in> set xs" by simp
    then have "fst k \<in> set (map fst xs)" by simp
    moreover have "fst a \<notin> set (map fst xs)" using Cons.prems(1) by simp
    ultimately have "fst k \<noteq> fst a" by metis
    with Cons kin show ?thesis by simp
  qed
qed

lemma sort_items_order_irrelevant:
  assumes "distinct (map fst d)" and "distinct (map fst d')" and "set d = set d'"
  shows "sort_key fst d = sort_key fst d'"
proof (rule properties_for_sort_key)
  have dd: "distinct d" "distinct d'"
    using assms(1,2) by (simp_all add: distinct_map)
  then have m: "mset d' = mset d"
    using assms(3) by (simp add: set_eq_iff_mset_eq_distinct)
  then show "mset (sort_key fst d') = mset d" by simp
  show "sorted (map fst (sort_key fst d'))" by simp
  fix k assume "k \<in> set (sort_key fst d')"
  then have k: "k \<in> set d'" by simp
  have "distinct (map fst (sort_key fst d'))"
    using assms(2) by (metis distinct_map distinct_sort set_sort)
  hence "filter (\<lambda>x. fst k = fst x) (sort_key fst d') = [k]"
    using k by (intro filter_same_key) simp_all
  moreover have "filter (\<lambda>x. fst k = fst x) d = [k]"
    using k assms(1,3) by (intro filter_same_key) simp_all
  ultimately show "filter (\<lambda>x. fst k = fst x) (sort_key fst d') = filter (\<lambda>x. fst k = fst x) d"
    by simp
qed

text \<open>
  C3, as stated, fails: the encoder sorts the keys of the payload itself and writes every
  dictionary nested in it in insertion order. Two transactions that differ only in the
  insertion order of the keys of a nested dictionary hold the same content and are encoded
  differently.
\<close>

theorem nested_key_order_counterexample:
  \<open>same_content (transaction_data tx_nested_xy) (transaction_data tx_nested_yx)
   \<and> tx_nested_yx = tx_nested_xy\<lparr>transaction_data := transaction_data tx_nested_yx\<rparr>
   \<and> serialized_transaction tx_nested_xy =
       Inr ''{"type":1,"mode":0,"transmitter":"ka","timestamp":"2019-01-01T00:00:00.000Z","data":{"lot":{"x":1,"y":2}}}''
   \<and> serialized_transaction tx_nested_yx =
       Inr ''{"type":1,"mode":0,"transmitter":"ka","timestamp":"2019-01-01T00:00:00.000Z","data":{"lot":{"y":2,"x":1}}}''
   \<and> serialized_transaction tx_nested_xy \<noteq> serialized_transaction tx_nested_yx\<close>
  by (simp add: same_content_def tx_nested_xy_def tx_nested_yx_def tx_B_def key_A_def
        serialized_transaction_def dumps_str_plain plain_char_def int_repr_def hex_digit_def)

text \<open>
  C3, amended. Two transactions with the same type, mode, transmitter and receiver key
  identifiers and raw timestamp, whose payloads hold the same top-level items (each key
  with an identical value) in any insertion order, have the same encoding.
\<close>

theorem canonical_encoding_top_level_order:
  assumes "transaction_data obj = JObj d" and "transaction_data obj' = JObj d'"
    and "distinct (map fst d)" and "distinct (map fst d')" and "set d = set d'"
    and "type obj' = type obj" and "mode obj' = mode obj"
    and "Key.hash (transmitter obj') = Key.hash (transmitter obj)"
    and "map_option Key.hash (receiver obj') = map_option Key.hash (receiver obj)"
    and "raw_client_timestamp obj' = raw_client_timestamp obj"
  shows "serialized_transaction obj' = serialized_transaction obj"
proof -
  have srt: "sort_key fst d' = sort_key fst d"
    using assms(3,4,5) by (intro sort_items_order_irrelevant) simp_all
  have rcv: "(case receiver obj' of None \<Rightarrow> [] | Some r \<Rightarrow> [(''receiver'', JStr (Key.hash r))])
           = (case receiver obj of None \<Rightarrow> [] | Some r \<Rightarrow> [(''receiver'', JStr (Key.hash r))])"
    using assms(9) by (cases "receiver obj'"; cases "receiver obj") simp_all
  have ser: "\<And>t e. transaction_data t = JObj e \<Longrightarrow> serialized_transaction t =
      Inr (json_dumps (JObj ([(''type'', JInt (type t)), (''mode'', JInt (mode t)),
                               (''transmitter'', JStr (Key.hash (transmitter t)))] @
             (case receiver t of None \<Rightarrow> [] | Some r \<Rightarrow> [(''receiver'', JStr (Key.hash r))]) @
             [(''timestamp'', JStr (raw_client_timestamp t)), (''data'', JObj (sort_key fst e))])))"
    by (simp add: serialized_transaction_def split: option.split)
  show ?thesis
    unfolding ser [OF assms(1)] ser [OF assms(2)] rcv srt assms(6,7,8,10) ..
qed

theorem canonical_encoding_top_level_order_witness:
  "transaction_data tx_sorted =
     JObj [(''product'', JList [JList [JStr ''P1'', JNull]]), (''new_id'', JStr ''N1'')]
   \<and> transaction_data tx_swapped =
     JObj [(''new_id'', JStr ''N1''), (''product'', JList [JList [JStr ''P1'', JNull]])]
   \<and> serialized_transaction tx_swapped = serialized_transaction tx_sorted"
proof -
  have a: "transaction_data tx_sorted =
     JObj [(''product'', JList [JList [JStr ''P1'', JNull]]), (''new_id'', JStr ''N1'')]"
    by (simp add: tx_sorted_def)
  have b: "transaction_data tx_swapped =
     JObj [(''new_id'', JStr ''N1''), (''product'', JList [JList [JStr ''P1'', JNull]])]"
    by (simp add: tx_swapped_def)
  have c: "serialized_transaction tx_swapped = serialized_transaction tx_sorted"
  proof (rule canonical_encoding_top_level_order [OF a b])
    show "set [(''product'', JList [JList [JStr ''P1'', JNull]]), (''new_id'', JStr ''N1'')] =
          set [(''new_id'', JStr ''N1''), (''product'', JList [JList [JStr ''P1'', JNull]])]"
      by (simp add: insert_commute)
  qed (simp_all add: tx_swapped_def)
  from a b c show ?thesis by simp
qed

section \<open>Signature verification\<close>

lemma serialized_transaction_sign:
  "serialized_transaction (obj\<lparr>sign := sg\<rparr>) = serialized_transaction obj"
  by (cases "transaction_data obj") (simp_all add: serialized_transaction_def)

text \<open>
  C1. When the stored identifier differs from the hex digest of the recomputed encoding,
  \<open>verify_sign\<close> returns \<open>False\<close>, the one negative outcome it has, whatever the key
  parser, the verifier and the stored signature are: the result is the same for a parser
  that raises on every key and for a signature that is not hexadecimal, so neither the
  parser, nor the decoder of the signature, nor the verifier has been called.
\<close>

theorem verify_sign_hash_mismatch:
  assumes "serialized_transaction obj = Inr s"
    and "hash obj \<noteq> sha256_hexdigest lib s"
  shows "verify_sign (lib\<lparr>RSA_importKey := imp, PKCS1_verify := ver\<rparr>) (obj\<lparr>sign := sg\<rparr>)
           = Inr False"
  using assms by (simp add: verify_sign_def serialized_transaction_sign)

theorem verify_sign_hash_mismatch_witness:
  \<open>serialized_transaction tx_B =
      Inr ''{"type":1,"mode":0,"transmitter":"ka","timestamp":"2019-01-01T00:00:00.000Z","data":{"product":[["P",3]]}}''
   \<and> hash tx_B \<noteq> sha256_hexdigest example_library
      ''{"type":1,"mode":0,"transmitter":"ka","timestamp":"2019-01-01T00:00:00.000Z","data":{"product":[["P",3]]}}''
   \<and> verify_sign
        (example_library\<lparr>RSA_importKey := (\<lambda>pem. Inl ValueError),
                          PKCS1_verify := (\<lambda>k h s. True)\<rparr>)
        (tx_B\<lparr>sign := ''not hex''\<rparr>) = Inr False\<close>
proof -
  have h: \<open>hash tx_B \<noteq> sha256_hexdigest example_library
      ''{"type":1,"mode":0,"transmitter":"ka","timestamp":"2019-01-01T00:00:00.000Z","data":{"product":[["P",3]]}}''\<close>
    by (simp add: tx_B_def example_library_def hex_digit_def)
  show ?thesis
    using verify_sign_hash_mismatch [OF serialized_tx_B h] serialized_tx_B h by simp
qed

lemma bytes_fromhex_error: "bytes_fromhex s = Inl e \<Longrightarrow> e = ValueError"
  by (induction s arbitrary: e rule: bytes_fromhex.induct)
     (auto split: if_splits option.splits sum.splits)

lemma serialized_transaction_hash:
  "serialized_transaction (obj\<lparr>hash := h\<rparr>) = serialized_transaction obj"
  by (cases "transaction_data obj") (simp_all add: serialized_transaction_def)

lemma serialized_tx_bad_sign:
  \<open>serialized_transaction tx_bad_sign =
     Inr ''{"type":1,"mode":0,"transmitter":"ka","timestamp":"2019-01-01T00:00:00.000Z","data":{"product":[["P",3]]}}''\<close>
  by (simp add: tx_bad_sign_def serialized_transaction_hash serialized_transaction_sign serialized_tx_B)

lemma digest_tx_B:
  \<open>sha256_hexdigest example_library
     ''{"type":1,"mode":0,"transmitter":"ka","timestamp":"2019-01-01T00:00:00.000Z","data":{"product":[["P",3]]}}''
    = ''106''\<close>
  by (simp add: example_library_def hex_digit_def)

lemma serialized_tx_wrong_sign:
  \<open>serialized_transaction tx_wrong_sign =
     Inr ''{"type":1,"mode":0,"transmitter":"ka","timestamp":"2019-01-01T00:00:00.000Z","data":{"product":[["P",3]]}}''\<close>
  by (simp add: tx_wrong_sign_def serialized_transaction_hash serialized_transaction_sign serialized_tx_B)

text \<open>
  C4, as stated, fails: \<open>verify_sign\<close> decodes the stored signature with
  \<open>bytes.fromhex\<close> outside any \<open>try\<close>, so a signature that is not hexadecimal
  raises \<open>ValueError\<close> to the caller, also when the identifier matches the digest and
  the key parses.
\<close>

theorem malformed_signature_counterexample:
  \<open>serialized_transaction tx_bad_sign =
     Inr ''{"type":1,"mode":0,"transmitter":"ka","timestamp":"2019-01-01T00:00:00.000Z","data":{"product":[["P",3]]}}''
   \<and> hash tx_bad_sign = sha256_hexdigest example_library
     ''{"type":1,"mode":0,"transmitter":"ka","timestamp":"2019-01-01T00:00:00.000Z","data":{"product":[["P",3]]}}''
   \<and> sign tx_bad_sign = ''zz''
   \<and> verify_sign example_library tx_bad_sign = Inl ValueError
   \<and> verify_sign example_library tx_bad_sign \<noteq> Inr False\<close>
proof -
  have v: "verify_sign example_library tx_bad_sign = Inl ValueError"
    by (simp add: verify_sign_def serialized_tx_bad_sign digest_tx_B)
       (simp add: tx_bad_sign_def tx_B_def key_A_def example_library_def is_space_def hex_value_def)
  show ?thesis
    using v serialized_tx_bad_sign digest_tx_B by (simp add: tx_bad_sign_def)
qed

text \<open>
  C4, amended. For a transaction whose stored identifier matches the recomputed digest
  and whose transmitter key parses: when the stored signature is well-formed hexadecimal
  the result is the verifier's boolean on the decoded bytes, and when it is not, the call
  raises \<open>ValueError\<close>.
\<close>

theorem verify_sign_signature_decoding:
  assumes "serialized_transaction obj = Inr s"
    and "hash obj = sha256_hexdigest lib s"
    and "RSA_importKey lib (public_key (transmitter obj)) = Inr k"
  shows "verify_sign lib obj =
           (case bytes_fromhex (sign obj) of
              Inl e \<Rightarrow> Inl ValueError
            | Inr signature \<Rightarrow> Inr (PKCS1_verify lib k (sha256_hexdigest lib s) signature))"
  using assms
  by (auto simp: verify_sign_def split: sum.splits dest: bytes_fromhex_error)

theorem verify_sign_signature_decoding_witness:
  \<open>hash tx_bad_sign = sha256_hexdigest example_library
     ''{"type":1,"mode":0,"transmitter":"ka","timestamp":"2019-01-01T00:00:00.000Z","data":{"product":[["P",3]]}}''
   \<and> RSA_importKey example_library (public_key (transmitter tx_bad_sign)) = Inr ()
   \<and> bytes_fromhex (sign tx_bad_sign) = Inl ValueError
   \<and> verify_sign example_library tx_bad_sign = Inl ValueError
   \<and> bytes_fromhex (sign tx_wrong_sign) = Inr [171, 15]
   \<and> verify_sign example_library tx_wrong_sign = Inr False\<close>
proof -
  have h1: \<open>hash tx_bad_sign = sha256_hexdigest example_library
     ''{"type":1,"mode":0,"transmitter":"ka","timestamp":"2019-01-01T00:00:00.000Z","data":{"product":[["P",3]]}}''\<close>
    by (simp add: digest_tx_B) (simp add: tx_bad_sign_def)
  have h2: \<open>hash tx_wrong_sign = sha256_hexdigest example_library
     ''{"type":1,"mode":0,"transmitter":"ka","timestamp":"2019-01-01T00:00:00.000Z","data":{"product":[["P",3]]}}''\<close>
    by (simp add: digest_tx_B) (simp add: tx_wrong_sign_def)
  have k1: "RSA_importKey example_library (public_key (transmitter tx_bad_sign)) = Inr ()"
    by (simp add: tx_bad_sign_def tx_B_def key_A_def example_library_def)
  have k2: "RSA_importKey example_library (public_key (transmitter tx_wrong_sign)) = Inr ()"
    by (simp add: tx_wrong_sign_def tx_B_def key_A_def example_library_def)
  have b1: "bytes_fromhex (sign tx_bad_sign) = Inl ValueError"
    by (simp add: tx_bad_sign_def is_space_def hex_value_def)
  have b2: "bytes_fromhex (sign tx_wrong_sign) = Inr [171, 15]"
    by (simp add: tx_wrong_sign_def is_space_def hex_value_def)
  have v: "PKCS1_verify example_library () h [171, 15] = False" for h
    by (simp add: example_library_def)
  show ?thesis
    using verify_sign_signature_decoding [OF serialized_tx_bad_sign h1 k1]
      verify_sign_signature_decoding [OF serialized_tx_wrong_sign h2 k2]
      h1 k1 b1 b2 v
    by simp
qed

section \<open>Lineage resolution: the loops and the view, stage by stage\<close>

lemma for_each_Inr: "for_each f xs = Inr ys \<longleftrightarrow> list_all2 (\<lambda>x y. f x = Inr y) xs ys"
proof (induction xs arbitrary: ys)
  case Nil
  show ?case by auto
next
  case (Cons x xs)
  show ?case
  proof (cases ys)
    case Nil
    then show ?thesis by (auto split: sum.splits)
  next
    case (Cons y ys')
    have "for_each f (x # xs) = Inr (y # ys') \<longleftrightarrow> f x = Inr y \<and> for_each f xs = Inr ys'"
      by (auto split: sum.splits)
    with Cons Cons.IH [of ys'] show ?thesis by simp
  qed
qed




lemma make_entry_Inr:
  "make_entry newid p = Inr e \<longleftrightarrow>
     (\<exists>p0. py_getitem p (JInt 0) = Inr p0 \<and>
        (if py_truthy newid then e = [(''product'', p0), (''newid'', newid)]
         else \<exists>p1. py_getitem p (JInt 1) = Inr p1 \<and>
                e = [(''product'', p0), (if py_is_str p1 then ''id'' else ''quantity'', p1)]))"
  by (auto simp: make_entry_def Let_def split: sum.splits if_splits)

lemma set_quantity_entry_Inr:
  "set_quantity_entry uq p = Inr p' \<longleftrightarrow>
     (if map_of p ''quantity'' = Some JNull
      then \<exists>code v. map_of p ''product'' = Some code \<and> py_getitem uq code = Inr v \<and>
             p' = AList.update ''quantity'' v p
      else p' = p)"
  by (auto simp: set_quantity_entry_def dict_get_def split: sum.splits option.splits)

lemma set_pre_entry_Inr:
  "set_pre_entry lib rows h p = Inr p' \<longleftrightarrow>
     (\<exists>code. map_of p ''product'' = Some code \<and>
        p' = AList.update ''pre'' (JList (map JStr (map input
               (query_order lib (filter (\<lambda>r. t_hash r = h \<and> charfield_exact lib code (product r)) rows))))) p)"
  by (auto simp: set_pre_entry_def dict_get_def split: option.splits)

lemma set_post_entry_Inr:
  "set_post_entry lib rows h p = Inr p' \<longleftrightarrow>
     (\<exists>code. map_of p ''product'' = Some code \<and>
        p' = AList.update ''post'' (JList (map JStr (map t_hash
               (query_order lib (filter (\<lambda>r. input r = h \<and> charfield_exact lib code (product r)) rows))))) p)"
  by (auto simp: set_post_entry_def dict_get_def split: option.splits)

lemma charfield_exact_str: "charfield_exact lib (JStr P) s \<longleftrightarrow> s = P"
  by (auto simp: charfield_exact_def)

lemma get_context_data_single:
  assumes "transaction_data obj = JObj td" and "map_of td ''product'' = Some pl"
  shows "get_context_data lib rows obj = Inr ctx \<longleftrightarrow>
      (\<exists>v l0 l1 l2 l3. verify_sign lib obj = Inr v
         \<and> make_product_list pl (case map_of td ''new_id'' of Some n \<Rightarrow> n | None \<Rightarrow> JNull) = Inr l0
         \<and> set_quantity l0 (updated_quantity obj) = Inr l1
         \<and> set_pre_transactions lib rows l1 (hash obj) = Inr l2
         \<and> set_post_transactions lib rows l2 (hash obj) = Inr l3
         \<and> ctx = [(''sign'', JBool v), (''product'', JList (map JObj l3))])"
  using assms by (auto simp: get_context_data_def split: sum.splits)

lemma get_context_data_dual:
  assumes "transaction_data obj = JObj td" and "map_of td ''product'' = None"
  shows "get_context_data lib rows obj = Inr ctx \<longleftrightarrow>
      (\<exists>v pin pout in0 in1 in2 out0 out1. verify_sign lib obj = Inr v
         \<and> map_of td ''product_in'' = Some pin
         \<and> make_product_list pin JNull = Inr in0
         \<and> map_of td ''product_out'' = Some pout
         \<and> make_product_list pout (case map_of td ''new_id'' of Some n \<Rightarrow> n | None \<Rightarrow> JNull) = Inr out0
         \<and> set_quantity in0 (updated_quantity obj) = Inr in1
         \<and> set_pre_transactions lib rows in1 (hash obj) = Inr in2
         \<and> set_post_transactions lib rows out0 (hash obj) = Inr out1
         \<and> ctx = [(''sign'', JBool v), (''product_in'', JList (map JObj in2)),
                  (''product_out'', JList (map JObj out1))])"
  using assms by (auto simp: get_context_data_def split: sum.splits option.splits)


lemma list_all2_chain:
  "list_all2 P xs ys \<Longrightarrow> list_all2 Q ys zs \<Longrightarrow> list_all2 (\<lambda>x z. \<exists>y. P x y \<and> Q y z) xs zs"
proof (induction arbitrary: zs rule: list_all2_induct)
  case Nil
  then show ?case by simp
next
  case (Cons x xs y ys)
  then show ?case by (cases zs) auto
qed

lemma py_is_str_not_null: "py_is_str q \<Longrightarrow> q \<noteq> JNull"
  by auto

lemma full_entry_maps:
  assumes "make_entry newid p = Inr e0" and "set_quantity_entry uq e0 = Inr e1"
    and "set_pre_entry lib rows h e1 = Inr e2" and "set_post_entry lib rows h e2 = Inr e"
  shows "\<exists>c. py_getitem p (JInt 0) = Inr c \<and> map_of e ''product'' = Some c
     \<and> map_of e ''pre'' = Some (JList (map JStr (map input
            (query_order lib (filter (\<lambda>r. t_hash r = h \<and> charfield_exact lib c (product r)) rows)))))
     \<and> map_of e ''post'' = Some (JList (map JStr (map t_hash
            (query_order lib (filter (\<lambda>r. input r = h \<and> charfield_exact lib c (product r)) rows)))))
     \<and> (if py_truthy newid
         then map_of e ''newid'' = Some newid \<and> map_of e ''id'' = None \<and> map_of e ''quantity'' = None
         else map_of e ''newid'' = None \<and>
           (\<exists>q. py_getitem p (JInt 1) = Inr q \<and>
             (if py_is_str q then map_of e ''id'' = Some q \<and> map_of e ''quantity'' = None
              else map_of e ''id'' = None \<and>
                (if q = JNull then \<exists>v. py_getitem uq c = Inr v \<and> map_of e ''quantity'' = Some v
                 else map_of e ''quantity'' = Some q))))"
proof -
  from assms(1) obtain c where c: "py_getitem p (JInt 0) = Inr c"
    and e0: "if py_truthy newid then e0 = [(''product'', c), (''newid'', newid)]
         else \<exists>q. py_getitem p (JInt 1) = Inr q \<and>
                e0 = [(''product'', c), (if py_is_str q then ''id'' else ''quantity'', q)]"
    by (auto simp: make_entry_Inr)
  have p0: "map_of e0 ''product'' = Some c"
    using e0 by (auto split: if_splits)
  have e1: "if map_of e0 ''quantity'' = Some JNull
      then \<exists>v. py_getitem uq c = Inr v \<and> e1 = AList.update ''quantity'' v e0
      else e1 = e0"
    using assms(2) p0 by (auto simp: set_quantity_entry_Inr)
  have p1: "map_of e1 ''product'' = Some c"
    using e1 p0 by (auto simp: update_conv' split: if_splits)
  have e2: "e2 = AList.update ''pre'' (JList (map JStr (map input
               (query_order lib (filter (\<lambda>r. t_hash r = h \<and> charfield_exact lib c (product r)) rows))))) e1"
    using assms(3) p1 by (auto simp: set_pre_entry_Inr)
  have p2: "map_of e2 ''product'' = Some c"
    using e2 p1 by (simp add: update_conv')
  have e: "e = AList.update ''post'' (JList (map JStr (map t_hash
               (query_order lib (filter (\<lambda>r. input r = h \<and> charfield_exact lib c (product r)) rows))))) e2"
    using assms(4) p2 by (auto simp: set_post_entry_Inr)
  have keep: "k \<noteq> ''pre'' \<Longrightarrow> k \<noteq> ''post'' \<Longrightarrow> map_of e k = map_of e1 k" for k
    by (simp add: e e2 update_conv')
  have kinds: "if py_truthy newid
         then map_of e1 ''newid'' = Some newid \<and> map_of e1 ''id'' = None \<and> map_of e1 ''quantity'' = None
         else map_of e1 ''newid'' = None \<and>
           (\<exists>q. py_getitem p (JInt 1) = Inr q \<and>
             (if py_is_str q then map_of e1 ''id'' = Some q \<and> map_of e1 ''quantity'' = None
              else map_of e1 ''id'' = None \<and>
                (if q = JNull then \<exists>v. py_getitem uq c = Inr v \<and> map_of e1 ''quantity'' = Some v
                 else map_of e1 ''quantity'' = Some q)))"
  proof (cases "py_truthy newid")
    case True
    with e0 e1 show ?thesis by simp
  next
    case False
    with e0 obtain q where q: "py_getitem p (JInt 1) = Inr q"
      and q0: "e0 = [(''product'', c), (if py_is_str q then ''id'' else ''quantity'', q)]"
      by auto
    show ?thesis
    proof (cases "py_is_str q")
      case True
      with q q0 e1 False show ?thesis by auto
    next
      case str: False
      show ?thesis
      proof (cases "q = JNull")
        case True
        with q q0 e1 False str show ?thesis by (auto simp: update_conv')
      next
        case False
        with q q0 e1 \<open>\<not> py_truthy newid\<close> str show ?thesis by auto
      qed
    qed
  qed
  have pe: "map_of e ''product'' = Some c"
    by (simp add: keep p1)
  have pre: "map_of e ''pre'' = Some (JList (map JStr (map input
            (query_order lib (filter (\<lambda>r. t_hash r = h \<and> charfield_exact lib c (product r)) rows)))))"
    by (simp add: e e2 update_conv')
  have post: "map_of e ''post'' = Some (JList (map JStr (map t_hash
            (query_order lib (filter (\<lambda>r. input r = h \<and> charfield_exact lib c (product r)) rows)))))"
    by (simp add: e update_conv')
  have ks: "map_of e ''newid'' = map_of e1 ''newid''" "map_of e ''id'' = map_of e1 ''id''"
    "map_of e ''quantity'' = map_of e1 ''quantity''"
    by (simp_all add: keep)
  show ?thesis
    unfolding ks by (intro exI [of _ c] conjI c pe pre post kinds)
qed


lemma in_entry_maps:
  assumes "make_entry JNull p = Inr e0" and "set_quantity_entry uq e0 = Inr e1"
    and "set_pre_entry lib rows h e1 = Inr e"
  shows "\<exists>c q. py_getitem p (JInt 0) = Inr c \<and> py_getitem p (JInt 1) = Inr q
     \<and> map_of e ''product'' = Some c
     \<and> map_of e ''pre'' = Some (JList (map JStr (map input
            (query_order lib (filter (\<lambda>r. t_hash r = h \<and> charfield_exact lib c (product r)) rows)))))
     \<and> map_of e ''post'' = None \<and> map_of e ''newid'' = None
     \<and> (if py_is_str q then map_of e ''id'' = Some q \<and> map_of e ''quantity'' = None
         else map_of e ''id'' = None \<and>
           (if q = JNull then \<exists>v. py_getitem uq c = Inr v \<and> map_of e ''quantity'' = Some v
            else map_of e ''quantity'' = Some q))"
proof -
  from assms(1) obtain c q where c: "py_getitem p (JInt 0) = Inr c"
    and q: "py_getitem p (JInt 1) = Inr q"
    and e0: "e0 = [(''product'', c), (if py_is_str q then ''id'' else ''quantity'', q)]"
    by (auto simp: make_entry_Inr)
  have p0: "map_of e0 ''product'' = Some c"
    using e0 by simp
  have e1: "if map_of e0 ''quantity'' = Some JNull
      then \<exists>v. py_getitem uq c = Inr v \<and> e1 = AList.update ''quantity'' v e0
      else e1 = e0"
    using assms(2) p0 by (auto simp: set_quantity_entry_Inr)
  have p1: "map_of e1 ''product'' = Some c"
    using e1 p0 by (auto simp: update_conv' split: if_splits)
  have e: "e = AList.update ''pre'' (JList (map JStr (map input
               (query_order lib (filter (\<lambda>r. t_hash r = h \<and> charfield_exact lib c (product r)) rows))))) e1"
    using assms(3) p1 by (auto simp: set_pre_entry_Inr)
  have keep: "k \<noteq> ''pre'' \<Longrightarrow> map_of e k = map_of e1 k" for k
    by (simp add: e update_conv')
  have kinds: "if py_is_str q then map_of e1 ''id'' = Some q \<and> map_of e1 ''quantity'' = None
         else map_of e1 ''id'' = None \<and>
           (if q = JNull then \<exists>v. py_getitem uq c = Inr v \<and> map_of e1 ''quantity'' = Some v
            else map_of e1 ''quantity'' = Some q)"
  proof (cases "py_is_str q")
    case True
    with e0 e1 show ?thesis by auto
  next
    case str: False
    show ?thesis
    proof (cases "q = JNull")
      case True
      with e0 e1 str show ?thesis by (auto simp: update_conv')
    next
      case False
      with e0 e1 str show ?thesis by auto
    qed
  qed
  have others: "map_of e1 ''post'' = None" "map_of e1 ''newid'' = None"
    using e0 e1 by (auto simp: update_conv' split: if_splits)
  have pe: "map_of e ''product'' = Some c"
    by (simp add: keep p1)
  have pre: "map_of e ''pre'' = Some (JList (map JStr (map input
            (query_order lib (filter (\<lambda>r. t_hash r = h \<and> charfield_exact lib c (product r)) rows)))))"
    by (simp add: e update_conv')
  have ks: "map_of e ''post'' = map_of e1 ''post''" "map_of e ''newid'' = map_of e1 ''newid''"
    "map_of e ''id'' = map_of e1 ''id''" "map_of e ''quantity'' = map_of e1 ''quantity''"
    by (simp_all add: keep)
  show ?thesis
    unfolding ks by (intro exI [of _ c] exI [of _ q] conjI c q pe pre others kinds)
qed

lemma out_entry_maps:
  assumes "make_entry newid p = Inr e0" and "set_post_entry lib rows h e0 = Inr e"
  shows "\<exists>c. py_getitem p (JInt 0) = Inr c \<and> map_of e ''product'' = Some c
     \<and> map_of e ''post'' = Some (JList (map JStr (map t_hash
            (query_order lib (filter (\<lambda>r. input r = h \<and> charfield_exact lib c (product r)) rows)))))
     \<and> map_of e ''pre'' = None
     \<and> (if py_truthy newid
         then map_of e ''newid'' = Some newid \<and> map_of e ''id'' = None \<and> map_of e ''quantity'' = None
         else map_of e ''newid'' = None \<and>
           (\<exists>q. py_getitem p (JInt 1) = Inr q \<and>
             (if py_is_str q then map_of e ''id'' = Some q \<and> map_of e ''quantity'' = None
              else map_of e ''id'' = None \<and> map_of e ''quantity'' = Some q)))"
proof -
  from assms(1) obtain c where c: "py_getitem p (JInt 0) = Inr c"
    and e0: "if py_truthy newid then e0 = [(''product'', c), (''newid'', newid)]
         else \<exists>q. py_getitem p (JInt 1) = Inr q \<and>
                e0 = [(''product'', c), (if py_is_str q then ''id'' else ''quantity'', q)]"
    by (auto simp: make_entry_Inr)
  have p0: "map_of e0 ''product'' = Some c"
    using e0 by (auto split: if_splits)
  have e: "e = AList.update ''post'' (JList (map JStr (map t_hash
               (query_order lib (filter (\<lambda>r. input r = h \<and> charfield_exact lib c (product r)) rows))))) e0"
    using assms(2) p0 by (auto simp: set_post_entry_Inr)
  have keep: "k \<noteq> ''post'' \<Longrightarrow> map_of e k = map_of e0 k" for k
    by (simp add: e update_conv')
  have kinds: "if py_truthy newid
         then map_of e0 ''newid'' = Some newid \<and> map_of e0 ''id'' = None \<and> map_of e0 ''quantity'' = None
         else map_of e0 ''newid'' = None \<and>
           (\<exists>q. py_getitem p (JInt 1) = Inr q \<and>
             (if py_is_str q then map_of e0 ''id'' = Some q \<and> map_of e0 ''quantity'' = None
              else map_of e0 ''id'' = None \<and> map_of e0 ''quantity'' = Some q))"
    using e0 by (cases "py_truthy newid") auto
  have pre0: "map_of e0 ''pre'' = None"
    using e0 by (auto split: if_splits)
  have pe: "map_of e ''product'' = Some c"
    by (simp add: keep p0)
  have post: "map_of e ''post'' = Some (JList (map JStr (map t_hash
            (query_order lib (filter (\<lambda>r. input r = h \<and> charfield_exact lib c (product r)) rows)))))"
    by (simp add: e update_conv')
  have ks: "map_of e ''pre'' = map_of e0 ''pre''" "map_of e ''newid'' = map_of e0 ''newid''"
    "map_of e ''id'' = map_of e0 ''id''" "map_of e ''quantity'' = map_of e0 ''quantity''"
    by (simp_all add: keep)
  show ?thesis
    unfolding ks by (intro exI [of _ c] conjI c pe post pre0 kinds)
qed


lemma make_product_list_Inr:
  "make_product_list pl newid = Inr l \<longleftrightarrow>
     (\<exists>ps. py_iter pl = Inr ps \<and> list_all2 (\<lambda>p e. make_entry newid p = Inr e) ps l)"
  by (auto simp: make_product_list_def for_each_Inr split: sum.splits)

lemma single_pipeline:
  assumes "get_context_data lib rows obj = Inr ctx"
    and "transaction_data obj = JObj td" and "map_of td ''product'' = Some pl"
  shows "\<exists>v ps es. verify_sign lib obj = Inr v \<and> py_iter pl = Inr ps
     \<and> ctx = [(''sign'', JBool v), (''product'', JList (map JObj es))]
     \<and> list_all2 (\<lambda>p e. \<exists>e0 e1 e2.
           make_entry (case map_of td ''new_id'' of Some n \<Rightarrow> n | None \<Rightarrow> JNull) p = Inr e0
         \<and> set_quantity_entry (updated_quantity obj) e0 = Inr e1
         \<and> set_pre_entry lib rows (hash obj) e1 = Inr e2
         \<and> set_post_entry lib rows (hash obj) e2 = Inr e) ps es"
proof -
  let ?newid = "case map_of td ''new_id'' of Some n \<Rightarrow> n | None \<Rightarrow> JNull"
  from assms obtain v l0 l1 l2 l3 where v: "verify_sign lib obj = Inr v"
    and l0: "make_product_list pl ?newid = Inr l0"
    and l1: "set_quantity l0 (updated_quantity obj) = Inr l1"
    and l2: "set_pre_transactions lib rows l1 (hash obj) = Inr l2"
    and l3: "set_post_transactions lib rows l2 (hash obj) = Inr l3"
    and ctx: "ctx = [(''sign'', JBool v), (''product'', JList (map JObj l3))]"
    by (auto simp: get_context_data_single)
  from l0 obtain ps where ps: "py_iter pl = Inr ps"
    and a0: "list_all2 (\<lambda>p e. make_entry ?newid p = Inr e) ps l0"
    by (auto simp: make_product_list_Inr)
  have a1: "list_all2 (\<lambda>e e'. set_quantity_entry (updated_quantity obj) e = Inr e') l0 l1"
    using l1 by (simp add: set_quantity_def for_each_Inr)
  have a2: "list_all2 (\<lambda>e e'. set_pre_entry lib rows (hash obj) e = Inr e') l1 l2"
    using l2 by (simp add: set_pre_transactions_def for_each_Inr)
  have a3: "list_all2 (\<lambda>e e'. set_post_entry lib rows (hash obj) e = Inr e') l2 l3"
    using l3 by (simp add: set_post_transactions_def for_each_Inr)
  have "list_all2 (\<lambda>p e. \<exists>e0 e1 e2.
           make_entry ?newid p = Inr e0
         \<and> set_quantity_entry (updated_quantity obj) e0 = Inr e1
         \<and> set_pre_entry lib rows (hash obj) e1 = Inr e2
         \<and> set_post_entry lib rows (hash obj) e2 = Inr e) ps l3"
    using list_all2_chain [OF list_all2_chain [OF list_all2_chain [OF a0 a1] a2] a3]
    by (rule list_all2_mono) blast
  with v ps ctx show ?thesis by blast
qed

lemma dual_pipeline:
  assumes "get_context_data lib rows obj = Inr ctx"
    and "transaction_data obj = JObj td" and "map_of td ''product'' = None"
  shows "\<exists>v pin pout ps_in ps_out ins outs. verify_sign lib obj = Inr v
     \<and> map_of td ''product_in'' = Some pin \<and> map_of td ''product_out'' = Some pout
     \<and> py_iter pin = Inr ps_in \<and> py_iter pout = Inr ps_out
     \<and> ctx = [(''sign'', JBool v), (''product_in'', JList (map JObj ins)),
              (''product_out'', JList (map JObj outs))]
     \<and> list_all2 (\<lambda>p e. \<exists>e0 e1.
           make_entry JNull p = Inr e0
         \<and> set_quantity_entry (updated_quantity obj) e0 = Inr e1
         \<and> set_pre_entry lib rows (hash obj) e1 = Inr e) ps_in ins
     \<and> list_all2 (\<lambda>p e. \<exists>e0.
           make_entry (case map_of td ''new_id'' of Some n \<Rightarrow> n | None \<Rightarrow> JNull) p = Inr e0
         \<and> set_post_entry lib rows (hash obj) e0 = Inr e) ps_out outs"
proof -
  let ?newid = "case map_of td ''new_id'' of Some n \<Rightarrow> n | None \<Rightarrow> JNull"
  from assms obtain v pin pout in0 in1 in2 out0 out1 where v: "verify_sign lib obj = Inr v"
    and pin: "map_of td ''product_in'' = Some pin"
    and i0: "make_product_list pin JNull = Inr in0"
    and pout: "map_of td ''product_out'' = Some pout"
    and o0: "make_product_list pout ?newid = Inr out0"
    and i1: "set_quantity in0 (updated_quantity obj) = Inr in1"
    and i2: "set_pre_transactions lib rows in1 (hash obj) = Inr in2"
    and o1: "set_post_transactions lib rows out0 (hash obj) = Inr out1"
    and ctx: "ctx = [(''sign'', JBool v), (''product_in'', JList (map JObj in2)),
                  (''product_out'', JList (map JObj out1))]"
    by (auto simp: get_context_data_dual)
  from i0 obtain ps_in where ps_in: "py_iter pin = Inr ps_in"
    and a0: "list_all2 (\<lambda>p e. make_entry JNull p = Inr e) ps_in in0"
    by (auto simp: make_product_list_Inr)
  from o0 obtain ps_out where ps_out: "py_iter pout = Inr ps_out"
    and b0: "list_all2 (\<lambda>p e. make_entry ?newid p = Inr e) ps_out out0"
    by (auto simp: make_product_list_Inr)
  have a1: "list_all2 (\<lambda>e e'. set_quantity_entry (updated_quantity obj) e = Inr e') in0 in1"
    using i1 by (simp add: set_quantity_def for_each_Inr)
  have a2: "list_all2 (\<lambda>e e'. set_pre_entry lib rows (hash obj) e = Inr e') in1 in2"
    using i2 by (simp add: set_pre_transactions_def for_each_Inr)
  have b1: "list_all2 (\<lambda>e e'. set_post_entry lib rows (hash obj) e = Inr e') out0 out1"
    using o1 by (simp add: set_post_transactions_def for_each_Inr)
  have ins: "list_all2 (\<lambda>p e. \<exists>e0 e1.
           make_entry JNull p = Inr e0
         \<and> set_quantity_entry (updated_quantity obj) e0 = Inr e1
         \<and> set_pre_entry lib rows (hash obj) e1 = Inr e) ps_in in2"
    using list_all2_chain [OF list_all2_chain [OF a0 a1] a2]
    by (rule list_all2_mono) blast
  have outs: "list_all2 (\<lambda>p e. \<exists>e0.
           make_entry ?newid p = Inr e0
         \<and> set_post_entry lib rows (hash obj) e0 = Inr e) ps_out out1"
    using list_all2_chain [OF b0 b1]
    by (rule list_all2_mono) blast
  from v pin pout ps_in ps_out ctx ins outs show ?thesis by blast
qed

section \<open>Lineage resolution: the examples evaluated\<close>

lemmas example_verify_defs =
  verify_sign_def serialized_transaction_def tx_B_def key_A_def key_R_def
  dumps_str_plain plain_char_def int_repr_def hex_digit_def example_library_def

lemma verify_tx_B: "verify_sign example_library tx_B = Inr False"
  by (simp add: verify_sign_def serialized_tx_B digest_tx_B) (simp add: tx_B_def)

lemma example_query_order: "query_order example_library = rev"
  by (simp add: example_library_def)

lemmas view_defs = example_query_order
  get_context_data_def make_product_list_def make_entry_def set_quantity_def
  set_quantity_entry_def set_pre_transactions_def set_pre_entry_def set_post_transactions_def
  set_post_entry_def py_index_def dict_get_def charfield_exact_def

lemma context_tx_B:
  "get_context_data example_library link_rows tx_B =
     Inr [(''sign'', JBool False),
          (''product'', JList [JObj [(''product'', JStr ''P''), (''quantity'', JInt 3),
                                     (''pre'', JList [JStr ''A'']), (''post'', JList [JStr ''C''])]])]"
  by (simp add: get_context_data_def verify_tx_B)
     (simp add: view_defs tx_B_def link_rows_def)


lemma context_tx_B_three:
  "get_context_data example_library link_rows_three tx_B =
     Inr [(''sign'', JBool False),
          (''product'', JList [JObj [(''product'', JStr ''P''), (''quantity'', JInt 3),
                                     (''pre'', JList [JStr ''M'', JStr ''A'', JStr ''Z'']),
                                     (''post'', JList [])]])]"
  by (simp add: get_context_data_def verify_tx_B)
     (simp add: view_defs tx_B_def link_rows_three_def)

lemma verify_tx_dual: "verify_sign example_library tx_dual = Inr False"
  by (simp add: verify_sign_def serialized_transaction_def tx_dual_def tx_B_def key_A_def
        dumps_str_plain plain_char_def int_repr_def hex_digit_def example_library_def)

lemma context_tx_dual:
  "get_context_data example_library link_rows tx_dual =
     Inr [(''sign'', JBool False),
          (''product_in'', JList [JObj [(''product'', JStr ''P''), (''quantity'', JInt 42),
                                        (''pre'', JList [JStr ''A''])]]),
          (''product_out'', JList [JObj [(''product'', JStr ''P''), (''quantity'', JNull),
                                         (''post'', JList [JStr ''C''])]])]"
  by (simp add: get_context_data_def verify_tx_dual)
     (simp add: view_defs tx_dual_def tx_B_def link_rows_def)

lemma pre_up_to_order:
  assumes "\<forall>rs. mset (query_order lib rs) = mset rs"
  shows "mset (map input (query_order lib
           (filter (\<lambda>r. t_hash r = h \<and> charfield_exact lib (JStr P) (product r)) rows)))
         = mset (link_inputs rows h P)"
  using assms by (simp add: link_inputs_def charfield_exact_str)

lemma post_up_to_order:
  assumes "\<forall>rs. mset (query_order lib rs) = mset rs"
  shows "mset (map t_hash (query_order lib
           (filter (\<lambda>r. input r = h \<and> charfield_exact lib (JStr P) (product r)) rows)))
         = mset (link_owners rows h P)"
  using assms by (simp add: link_owners_def charfield_exact_str)

section \<open>Lineage resolution: the properties\<close>

text \<open>
  C5. When \<open>get_context_data\<close> returns for the transaction \<open>obj\<close> and the database
  answers a query with the rows that match, each once, in an order of its own: for a
  payload with a \<open>product\<close> list, the context holds one entry per element of the list,
  in order, and the entry of an element with the product code \<open>P\<close> has under
  \<open>pre\<close>, in some order, exactly the input identifiers of the link rows owned by
  \<open>obj\<close> for \<open>P\<close> and under \<open>post\<close>, in some order, exactly the owners of the
  link rows whose input is \<open>obj\<close> for \<open>P\<close>. For a payload without
  \<open>product\<close>, the entries of \<open>product_in\<close> get the predecessors (and no
  \<open>post\<close>) and the entries of \<open>product_out\<close> get the successors (and no
  \<open>pre\<close>). With the rows (B, A, P) and (C, B, P), the entry of P in transaction B has
  the predecessors [A] and the successors [C].
\<close>

theorem lineage_links:
  assumes "get_context_data lib rows obj = Inr ctx" and "transaction_data obj = JObj td"
    and qo: "\<forall>rs. mset (query_order lib rs) = mset rs"
  shows "(\<forall>pl. map_of td ''product'' = Some pl \<longrightarrow>
           (\<exists>ps es. py_iter pl = Inr ps
              \<and> map_of ctx ''product'' = Some (JList (map JObj es))
              \<and> list_all2 (\<lambda>p e. \<forall>P. py_getitem p (JInt 0) = Inr (JStr P) \<longrightarrow>
                    map_of e ''product'' = Some (JStr P)
                  \<and> (\<exists>pre. map_of e ''pre'' = Some (JList (map JStr pre))
                        \<and> mset pre = mset (link_inputs rows (hash obj) P))
                  \<and> (\<exists>post. map_of e ''post'' = Some (JList (map JStr post))
                        \<and> mset post = mset (link_owners rows (hash obj) P)))
                  ps es))
       \<and> (map_of td ''product'' = None \<longrightarrow>
           (\<exists>pin pout ps_in ps_out ins outs.
                map_of td ''product_in'' = Some pin \<and> map_of td ''product_out'' = Some pout
              \<and> py_iter pin = Inr ps_in \<and> py_iter pout = Inr ps_out
              \<and> map_of ctx ''product_in'' = Some (JList (map JObj ins))
              \<and> map_of ctx ''product_out'' = Some (JList (map JObj outs))
              \<and> list_all2 (\<lambda>p e. \<forall>P. py_getitem p (JInt 0) = Inr (JStr P) \<longrightarrow>
                    map_of e ''product'' = Some (JStr P)
                  \<and> (\<exists>pre. map_of e ''pre'' = Some (JList (map JStr pre))
                        \<and> mset pre = mset (link_inputs rows (hash obj) P))
                  \<and> map_of e ''post'' = None)
                  ps_in ins
              \<and> list_all2 (\<lambda>p e. \<forall>P. py_getitem p (JInt 0) = Inr (JStr P) \<longrightarrow>
                    map_of e ''product'' = Some (JStr P)
                  \<and> (\<exists>post. map_of e ''post'' = Some (JList (map JStr post))
                        \<and> mset post = mset (link_owners rows (hash obj) P))
                  \<and> map_of e ''pre'' = None)
                  ps_out outs))"
proof (intro conjI allI impI)
  fix pl assume pl: "map_of td ''product'' = Some pl"
  from single_pipeline [OF assms(1,2) pl] obtain v ps es where ps: "py_iter pl = Inr ps"
    and ctx: "ctx = [(''sign'', JBool v), (''product'', JList (map JObj es))]"
    and es: "list_all2 (\<lambda>p e. \<exists>e0 e1 e2.
           make_entry (case map_of td ''new_id'' of Some n \<Rightarrow> n | None \<Rightarrow> JNull) p = Inr e0
         \<and> set_quantity_entry (updated_quantity obj) e0 = Inr e1
         \<and> set_pre_entry lib rows (hash obj) e1 = Inr e2
         \<and> set_post_entry lib rows (hash obj) e2 = Inr e) ps es"
    by blast
  have "list_all2 (\<lambda>p e. \<forall>P. py_getitem p (JInt 0) = Inr (JStr P) \<longrightarrow>
                    map_of e ''product'' = Some (JStr P)
                  \<and> (\<exists>pre. map_of e ''pre'' = Some (JList (map JStr pre))
                        \<and> mset pre = mset (link_inputs rows (hash obj) P))
                  \<and> (\<exists>post. map_of e ''post'' = Some (JList (map JStr post))
                        \<and> mset post = mset (link_owners rows (hash obj) P)))
                  ps es"
    using es
  proof (rule list_all2_mono)
    fix p e
    assume "\<exists>e0 e1 e2.
           make_entry (case map_of td ''new_id'' of Some n \<Rightarrow> n | None \<Rightarrow> JNull) p = Inr e0
         \<and> set_quantity_entry (updated_quantity obj) e0 = Inr e1
         \<and> set_pre_entry lib rows (hash obj) e1 = Inr e2
         \<and> set_post_entry lib rows (hash obj) e2 = Inr e"
    then obtain e0 e1 e2 where
      "make_entry (case map_of td ''new_id'' of Some n \<Rightarrow> n | None \<Rightarrow> JNull) p = Inr e0"
      "set_quantity_entry (updated_quantity obj) e0 = Inr e1"
      "set_pre_entry lib rows (hash obj) e1 = Inr e2"
      "set_post_entry lib rows (hash obj) e2 = Inr e"
      by blast
    from full_entry_maps [OF this] obtain c where c: "py_getitem p (JInt 0) = Inr c"
      and pe: "map_of e ''product'' = Some c"
      and pre: "map_of e ''pre'' = Some (JList (map JStr (map input
            (query_order lib (filter (\<lambda>r. t_hash r = hash obj \<and> charfield_exact lib c (product r)) rows)))))"
      and post: "map_of e ''post'' = Some (JList (map JStr (map t_hash
            (query_order lib (filter (\<lambda>r. input r = hash obj \<and> charfield_exact lib c (product r)) rows)))))"
      by blast
    show "\<forall>P. py_getitem p (JInt 0) = Inr (JStr P) \<longrightarrow>
                    map_of e ''product'' = Some (JStr P)
                  \<and> (\<exists>pre. map_of e ''pre'' = Some (JList (map JStr pre))
                        \<and> mset pre = mset (link_inputs rows (hash obj) P))
                  \<and> (\<exists>post. map_of e ''post'' = Some (JList (map JStr post))
                        \<and> mset post = mset (link_owners rows (hash obj) P))"
    proof (intro allI impI)
      fix P assume "py_getitem p (JInt 0) = Inr (JStr P)"
      with c have cP: "c = JStr P" by simp
      show "map_of e ''product'' = Some (JStr P)
                  \<and> (\<exists>pre. map_of e ''pre'' = Some (JList (map JStr pre))
                        \<and> mset pre = mset (link_inputs rows (hash obj) P))
                  \<and> (\<exists>post. map_of e ''post'' = Some (JList (map JStr post))
                        \<and> mset post = mset (link_owners rows (hash obj) P))"
        using pe pre post pre_up_to_order [OF qo] post_up_to_order [OF qo]
        unfolding cP by blast
    qed
  qed
  with ps ctx
  show "\<exists>ps es. py_iter pl = Inr ps
              \<and> map_of ctx ''product'' = Some (JList (map JObj es))
              \<and> list_all2 (\<lambda>p e. \<forall>P. py_getitem p (JInt 0) = Inr (JStr P) \<longrightarrow>
                    map_of e ''product'' = Some (JStr P)
                  \<and> (\<exists>pre. map_of e ''pre'' = Some (JList (map JStr pre))
                        \<and> mset pre = mset (link_inputs rows (hash obj) P))
                  \<and> (\<exists>post. map_of e ''post'' = Some (JList (map JStr post))
                        \<and> mset post = mset (link_owners rows (hash obj) P)))
                  ps es"
    by auto
next
  assume none: "map_of td ''product'' = None"
  from dual_pipeline [OF assms(1,2) none] obtain v pin pout ps_in ps_out ins outs
    where pin: "map_of td ''product_in'' = Some pin" and pout: "map_of td ''product_out'' = Some pout"
    and ps_in: "py_iter pin = Inr ps_in" and ps_out: "py_iter pout = Inr ps_out"
    and ctx: "ctx = [(''sign'', JBool v), (''product_in'', JList (map JObj ins)),
              (''product_out'', JList (map JObj outs))]"
    and ins: "list_all2 (\<lambda>p e. \<exists>e0 e1.
           make_entry JNull p = Inr e0
         \<and> set_quantity_entry (updated_quantity obj) e0 = Inr e1
         \<and> set_pre_entry lib rows (hash obj) e1 = Inr e) ps_in ins"
    and outs: "list_all2 (\<lambda>p e. \<exists>e0.
           make_entry (case map_of td ''new_id'' of Some n \<Rightarrow> n | None \<Rightarrow> JNull) p = Inr e0
         \<and> set_post_entry lib rows (hash obj) e0 = Inr e) ps_out outs"
    by blast
  have i: "list_all2 (\<lambda>p e. \<forall>P. py_getitem p (JInt 0) = Inr (JStr P) \<longrightarrow>
                    map_of e ''product'' = Some (JStr P)
                  \<and> (\<exists>pre. map_of e ''pre'' = Some (JList (map JStr pre))
                        \<and> mset pre = mset (link_inputs rows (hash obj) P))
                  \<and> map_of e ''post'' = None)
                  ps_in ins"
    using ins
  proof (rule list_all2_mono)
    fix p e
    assume "\<exists>e0 e1.
           make_entry JNull p = Inr e0
         \<and> set_quantity_entry (updated_quantity obj) e0 = Inr e1
         \<and> set_pre_entry lib rows (hash obj) e1 = Inr e"
    then obtain e0 e1 where
      "make_entry JNull p = Inr e0"
      "set_quantity_entry (updated_quantity obj) e0 = Inr e1"
      "set_pre_entry lib rows (hash obj) e1 = Inr e"
      by blast
    from in_entry_maps [OF this] obtain c where c: "py_getitem p (JInt 0) = Inr c"
      and pe: "map_of e ''product'' = Some c"
      and pre: "map_of e ''pre'' = Some (JList (map JStr (map input
            (query_order lib (filter (\<lambda>r. t_hash r = hash obj \<and> charfield_exact lib c (product r)) rows)))))"
      and post: "map_of e ''post'' = None"
      by blast
    show "\<forall>P. py_getitem p (JInt 0) = Inr (JStr P) \<longrightarrow>
                    map_of e ''product'' = Some (JStr P)
                  \<and> (\<exists>pre. map_of e ''pre'' = Some (JList (map JStr pre))
                        \<and> mset pre = mset (link_inputs rows (hash obj) P))
                  \<and> map_of e ''post'' = None"
    proof (intro allI impI)
      fix P assume "py_getitem p (JInt 0) = Inr (JStr P)"
      with c have cP: "c = JStr P" by simp
      show "map_of e ''product'' = Some (JStr P)
                  \<and> (\<exists>pre. map_of e ''pre'' = Some (JList (map JStr pre))
                        \<and> mset pre = mset (link_inputs rows (hash obj) P))
                  \<and> map_of e ''post'' = None"
        using pe pre post pre_up_to_order [OF qo]
        unfolding cP by blast
    qed
  qed
  have o: "list_all2 (\<lambda>p e. \<forall>P. py_getitem p (JInt 0) = Inr (JStr P) \<longrightarrow>
                    map_of e ''product'' = Some (JStr P)
                  \<and> (\<exists>post. map_of e ''post'' = Some (JList (map JStr post))
                        \<and> mset post = mset (link_owners rows (hash obj) P))
                  \<and> map_of e ''pre'' = None)
                  ps_out outs"
    using outs
  proof (rule list_all2_mono)
    fix p e
    assume "\<exists>e0.
           make_entry (case map_of td ''new_id'' of Some n \<Rightarrow> n | None \<Rightarrow> JNull) p = Inr e0
         \<and> set_post_entry lib rows (hash obj) e0 = Inr e"
    then obtain e0 where
      "make_entry (case map_of td ''new_id'' of Some n \<Rightarrow> n | None \<Rightarrow> JNull) p = Inr e0"
      "set_post_entry lib rows (hash obj) e0 = Inr e"
      by blast
    from out_entry_maps [OF this] obtain c where c: "py_getitem p (JInt 0) = Inr c"
      and pe: "map_of e ''product'' = Some c"
      and post: "map_of e ''post'' = Some (JList (map JStr (map t_hash
            (query_order lib (filter (\<lambda>r. input r = hash obj \<and> charfield_exact lib c (product r)) rows)))))"
      and pre: "map_of e ''pre'' = None"
      by blast
    show "\<forall>P. py_getitem p (JInt 0) = Inr (JStr P) \<longrightarrow>
                    map_of e ''product'' = Some (JStr P)
                  \<and> (\<exists>post. map_of e ''post'' = Some (JList (map JStr post))
                        \<and> mset post = mset (link_owners rows (hash obj) P))
                  \<and> map_of e ''pre'' = None"
    proof (intro allI impI)
      fix P assume "py_getitem p (JInt 0) = Inr (JStr P)"
      with c have cP: "c = JStr P" by simp
      show "map_of e ''product'' = Some (JStr P)
                  \<and> (\<exists>post. map_of e ''post'' = Some (JList (map JStr post))
                        \<and> mset post = mset (link_owners rows (hash obj) P))
                  \<and> map_of e ''pre'' = None"
        using pe pre post post_up_to_order [OF qo]
        unfolding cP by blast
    qed
  qed
  have c1: "map_of ctx ''product_in'' = Some (JList (map JObj ins))"
    and c2: "map_of ctx ''product_out'' = Some (JList (map JObj outs))"
    by (simp_all add: ctx)
  from pin pout ps_in ps_out c1 c2 i o
  show "\<exists>pin pout ps_in ps_out ins outs.
                map_of td ''product_in'' = Some pin \<and> map_of td ''product_out'' = Some pout
              \<and> py_iter pin = Inr ps_in \<and> py_iter pout = Inr ps_out
              \<and> map_of ctx ''product_in'' = Some (JList (map JObj ins))
              \<and> map_of ctx ''product_out'' = Some (JList (map JObj outs))
              \<and> list_all2 (\<lambda>p e. \<forall>P. py_getitem p (JInt 0) = Inr (JStr P) \<longrightarrow>
                    map_of e ''product'' = Some (JStr P)
                  \<and> (\<exists>pre. map_of e ''pre'' = Some (JList (map JStr pre))
                        \<and> mset pre = mset (link_inputs rows (hash obj) P))
                  \<and> map_of e ''post'' = None)
                  ps_in ins
              \<and> list_all2 (\<lambda>p e. \<forall>P. py_getitem p (JInt 0) = Inr (JStr P) \<longrightarrow>
                    map_of e ''product'' = Some (JStr P)
                  \<and> (\<exists>post. map_of e ''post'' = Some (JList (map JStr post))
                        \<and> mset post = mset (link_owners rows (hash obj) P))
                  \<and> map_of e ''pre'' = None)
                  ps_out outs"
    by blast
qed

theorem lineage_links_witness:
  "transaction_data tx_B = JObj [(''product'', JList [JList [JStr ''P'', JInt 3]])]
   \<and> link_inputs link_rows (hash tx_B) ''P'' = [''A'']
   \<and> link_owners link_rows (hash tx_B) ''P'' = [''C'']
   \<and> get_context_data example_library link_rows tx_B =
       Inr [(''sign'', JBool False),
            (''product'', JList [JObj [(''product'', JStr ''P''), (''quantity'', JInt 3),
                                       (''pre'', JList [JStr ''A'']),
                                       (''post'', JList [JStr ''C''])]])]
   \<and> get_context_data example_library link_rows tx_dual =
       Inr [(''sign'', JBool False),
            (''product_in'', JList [JObj [(''product'', JStr ''P''), (''quantity'', JInt 42),
                                          (''pre'', JList [JStr ''A''])]]),
            (''product_out'', JList [JObj [(''product'', JStr ''P''), (''quantity'', JNull),
                                           (''post'', JList [JStr ''C''])]])]
   \<and> link_inputs link_rows_three (hash tx_B) ''P'' = [''Z'', ''A'', ''M'']
   \<and> get_context_data example_library link_rows_three tx_B =
       Inr [(''sign'', JBool False),
            (''product'', JList [JObj [(''product'', JStr ''P''), (''quantity'', JInt 3),
                                       (''pre'', JList [JStr ''M'', JStr ''A'', JStr ''Z'']),
                                       (''post'', JList [])]])]
   \<and> mset [''M'', ''A'', ''Z''] = mset (link_inputs link_rows_three (hash tx_B) ''P'')"
proof -
  have b: "transaction_data tx_B = JObj [(''product'', JList [JList [JStr ''P'', JInt 3]])]"
    by (simp add: tx_B_def)
  have d: "transaction_data tx_dual =
             JObj [(''product_in'', JList [JList [JStr ''P'', JNull]]),
                   (''product_out'', JList [JList [JStr ''P'', JNull]])]"
    by (simp add: tx_dual_def)
  have l: "link_inputs link_rows (hash tx_B) ''P'' = [''A'']"
    "link_owners link_rows (hash tx_B) ''P'' = [''C'']"
    "link_inputs link_rows_three (hash tx_B) ''P'' = [''Z'', ''A'', ''M'']"
    by (simp_all add: link_inputs_def link_owners_def link_rows_def link_rows_three_def tx_B_def)
  have qo: "\<forall>rs. mset (query_order example_library rs) = mset rs"
    by (simp add: example_query_order)
  have m: "mset [''M'', ''A'', ''Z''] = mset (link_inputs link_rows_three (hash tx_B) ''P'')"
    by (simp add: l add_mset_commute)
  show ?thesis
    using lineage_links [OF context_tx_B b qo] lineage_links [OF context_tx_dual d qo]
      lineage_links [OF context_tx_B_three b qo]
      b l m context_tx_B context_tx_dual context_tx_B_three
    by simp
qed

lemma verify_tx_no_shape: "verify_sign example_library tx_no_shape = Inr False"
  by (simp add: verify_sign_def serialized_transaction_def tx_no_shape_def tx_B_def key_A_def
        dumps_str_plain plain_char_def int_repr_def hex_digit_def example_library_def)

lemma list_all2_right: "list_all2 (\<lambda>x y. Q y) xs ys \<Longrightarrow> list_all Q ys"
  by (induction xs ys rule: list_all2_induct) simp_all

lemma make_example_pairs:
  "make_product_list example_pairs JNull =
     Inr [[(''product'', JStr ''P1''), (''quantity'', JNull)],
          [(''product'', JStr ''P2''), (''id'', JStr ''id-7'')],
          [(''product'', JStr ''P3''), (''quantity'', JInt 7)]]"
  "make_product_list example_pairs (JStr ''N1'') =
     Inr [[(''product'', JStr ''P1''), (''newid'', JStr ''N1'')],
          [(''product'', JStr ''P2''), (''newid'', JStr ''N1'')],
          [(''product'', JStr ''P3''), (''newid'', JStr ''N1'')]]"
  by (simp_all add: example_pairs_def make_product_list_def make_entry_def py_index_def)

lemma verify_tx_no_shape_zz: "verify_sign example_library tx_no_shape_zz = Inl ValueError"
  by (simp add: tx_no_shape_zz_def tx_no_shape_def example_verify_defs is_space_def hex_value_def)

lemma verify_tx_shaped_key: "verify_sign example_library tx_shaped_key = Inr False"
  by (simp add: tx_shaped_key_def example_verify_defs)

text \<open>
  C6, as stated, fails: the code has no payload-shape error and no check of the shape.
  A payload with none of the keys \<open>product\<close>, \<open>product_in\<close>, \<open>product_out\<close>
  makes \<open>get_context_data\<close> raise whatever its first failing step raises: the
  \<open>ValueError\<close> of \<open>verify_sign\<close> when the identifier matches and the signature is
  not hexadecimal, and otherwise the built-in \<open>KeyError\<close> of the subscript
  \<open>transaction_data['product_in']\<close>, which a well-shaped payload raises as well (from
  the quantity lookup of a product whose code is \<open>product_in\<close>).
\<close>

theorem payload_shape_error_counterexample:
  "transaction_data tx_no_shape_zz = JObj [(''note'', JStr ''x'')]
   \<and> get_context_data example_library link_rows tx_no_shape_zz = Inl ValueError
   \<and> transaction_data tx_no_shape = JObj [(''note'', JStr ''x'')]
   \<and> get_context_data example_library link_rows tx_no_shape = Inl (KeyError (JStr ''product_in''))
   \<and> transaction_data tx_shaped_key =
        JObj [(''product'', JList [JList [JStr ''product_in'', JNull]])]
   \<and> get_context_data example_library link_rows tx_shaped_key =
        Inl (KeyError (JStr ''product_in''))"
proof -
  have a: "get_context_data example_library link_rows tx_no_shape_zz = Inl ValueError"
    by (simp add: get_context_data_def verify_tx_no_shape_zz)
  have b: "get_context_data example_library link_rows tx_no_shape = Inl (KeyError (JStr ''product_in''))"
    by (simp add: get_context_data_def verify_tx_no_shape) (simp add: tx_no_shape_def)
  have c: "get_context_data example_library link_rows tx_shaped_key =
        Inl (KeyError (JStr ''product_in''))"
    by (simp add: get_context_data_def verify_tx_shaped_key)
       (simp add: view_defs tx_shaped_key_def)
  from a b c show ?thesis
    by (simp add: tx_no_shape_zz_def tx_no_shape_def tx_shaped_key_def)
qed

text \<open>
  C6, amended. A payload with no \<open>product\<close> key is read as the dual shape, and
  \<open>obj.transaction_data['product_in']\<close> is a plain subscript. So when \<open>product\<close>
  and one of \<open>product_in\<close>, \<open>product_out\<close> are missing, \<open>get_context_data\<close>
  raises and returns no context at all, hence no partial entries and no empty view. When
  \<open>verify_sign\<close> raises, the exception is that of \<open>verify_sign\<close>; when
  \<open>verify_sign\<close> returns (with either outcome) and \<open>product_in\<close> is missing, it is
  the built-in \<open>KeyError\<close> of the key \<open>product_in\<close>, raised before any entry is
  built.
\<close>

theorem missing_product_keys:
  assumes "transaction_data obj = JObj td" and "map_of td ''product'' = None"
    and "map_of td ''product_in'' = None \<or> map_of td ''product_out'' = None"
  shows "(\<exists>e. get_context_data lib rows obj = Inl e)
       \<and> (\<forall>v. verify_sign lib obj = Inr v \<and> map_of td ''product_in'' = None \<longrightarrow>
             get_context_data lib rows obj = Inl (KeyError (JStr ''product_in'')))
       \<and> (\<forall>e. verify_sign lib obj = Inl e \<longrightarrow> get_context_data lib rows obj = Inl e)"
  using assms
  by (auto simp: get_context_data_def split: sum.splits option.splits)

theorem missing_product_keys_witness:
  "transaction_data tx_no_shape = JObj [(''note'', JStr ''x'')]
   \<and> verify_sign example_library tx_no_shape = Inr False
   \<and> get_context_data example_library link_rows tx_no_shape = Inl (KeyError (JStr ''product_in''))"
proof -
  have td: "transaction_data tx_no_shape = JObj [(''note'', JStr ''x'')]"
    by (simp add: tx_no_shape_def)
  have "get_context_data example_library link_rows tx_no_shape = Inl (KeyError (JStr ''product_in''))"
    using missing_product_keys [OF td, of example_library link_rows] verify_tx_no_shape by auto
  with td verify_tx_no_shape show ?thesis by simp
qed

text \<open>
  C10. Every dictionary that \<open>make_product_list\<close> returns has exactly two keys:
  \<open>product\<close>, and one of \<open>newid\<close>, \<open>id\<close>, \<open>quantity\<close>. It is \<open>newid\<close>
  exactly when the \<open>newid\<close> argument is truthy, and otherwise \<open>id\<close> exactly when the
  second element of the pair is a string. So exactly one of the three keys is present.
\<close>

theorem entry_has_exactly_one_kind:
  assumes "make_product_list p_list newid = Inr l"
  shows "list_all (\<lambda>e.
            (\<exists>c k v. e = [(''product'', c), (k, v)] \<and> k \<in> {''newid'', ''id'', ''quantity''}
                \<and> (k = ''newid'' \<longleftrightarrow> py_truthy newid) \<and> (k = ''id'' \<longleftrightarrow> \<not> py_truthy newid \<and> py_is_str v))
          \<and> length (filter (\<lambda>k. map_of e k \<noteq> None) [''newid'', ''id'', ''quantity'']) = 1) l"
proof -
  from assms obtain ps where "list_all2 (\<lambda>p e. make_entry newid p = Inr e) ps l"
    by (auto simp: make_product_list_Inr)
  then have "list_all2 (\<lambda>p e.
            (\<exists>c k v. e = [(''product'', c), (k, v)] \<and> k \<in> {''newid'', ''id'', ''quantity''}
                \<and> (k = ''newid'' \<longleftrightarrow> py_truthy newid) \<and> (k = ''id'' \<longleftrightarrow> \<not> py_truthy newid \<and> py_is_str v))
          \<and> length (filter (\<lambda>k. map_of e k \<noteq> None) [''newid'', ''id'', ''quantity'']) = 1) ps l"
    by (rule list_all2_mono) (auto simp: make_entry_Inr split: if_splits)
  then show ?thesis by (rule list_all2_right)
qed

theorem entry_has_exactly_one_kind_witness:
  "make_product_list example_pairs JNull =
     Inr [[(''product'', JStr ''P1''), (''quantity'', JNull)],
          [(''product'', JStr ''P2''), (''id'', JStr ''id-7'')],
          [(''product'', JStr ''P3''), (''quantity'', JInt 7)]]
   \<and> list_all (\<lambda>e. length (filter (\<lambda>k. map_of e k \<noteq> None) [''newid'', ''id'', ''quantity'']) = 1)
        [[(''product'', JStr ''P1''), (''quantity'', JNull)],
         [(''product'', JStr ''P2''), (''id'', JStr ''id-7'')],
         [(''product'', JStr ''P3''), (''quantity'', JInt 7)]]"
  using entry_has_exactly_one_kind [OF make_example_pairs(1)] make_example_pairs(1)
  by simp

lemma verify_tx_empty_newid: "verify_sign example_library tx_empty_newid = Inr False"
  by (simp add: tx_empty_newid_def example_verify_defs)

lemma verify_tx_dual_newid: "verify_sign example_library tx_dual_newid = Inr False"
  by (simp add: tx_dual_newid_def example_verify_defs)

lemma verify_tx_sorted: "verify_sign example_library tx_sorted = Inr False"
  by (simp add: tx_sorted_def example_verify_defs)

lemma context_tx_sorted:
  "get_context_data example_library link_rows tx_sorted =
     Inr [(''sign'', JBool False),
          (''product'', JList [JObj [(''product'', JStr ''P1''), (''newid'', JStr ''N1''),
                                     (''pre'', JList []), (''post'', JList [])]])]"
  by (simp add: get_context_data_def verify_tx_sorted)
     (simp add: view_defs tx_sorted_def link_rows_def)

lemma context_tx_dual_newid:
  "get_context_data example_library link_rows tx_dual_newid =
     Inr [(''sign'', JBool False),
          (''product_in'', JList [JObj [(''product'', JStr ''P''), (''quantity'', JInt 42),
                                        (''pre'', JList [JStr ''A''])]]),
          (''product_out'', JList [JObj [(''product'', JStr ''P''), (''newid'', JStr ''N2''),
                                         (''post'', JList [JStr ''C''])]])]"
  by (simp add: get_context_data_def verify_tx_dual_newid)
     (simp add: view_defs tx_dual_newid_def tx_B_def link_rows_def)

text \<open>
  C8, as stated, fails: \<open>make_product_list\<close> tests \<open>if newid:\<close>, so a \<open>new_id\<close>
  that is present in the payload and not truthy (an empty string, \<open>null\<close>, \<open>0\<close>,
  \<open>false\<close>, an empty list or dictionary) is treated as absent and the entry keeps the
  pair's own value.
\<close>

theorem falsy_new_id_counterexample:
  "transaction_data tx_empty_newid =
      JObj [(''product'', JList [JList [JStr ''P1'', JStr ''old-id'']]), (''new_id'', JStr '''')]
   \<and> get_context_data example_library link_rows tx_empty_newid =
     Inr [(''sign'', JBool False),
          (''product'', JList [JObj [(''product'', JStr ''P1''), (''id'', JStr ''old-id''),
                                     (''pre'', JList []), (''post'', JList [])]])]"
  by (simp add: get_context_data_def verify_tx_empty_newid)
     (simp add: view_defs tx_empty_newid_def link_rows_def)

text \<open>
  C8, amended. When the payload has a top-level \<open>new_id\<close> that is truthy and
  \<open>get_context_data\<close> returns: every entry of the \<open>product\<close> list carries it under
  \<open>newid\<close> and has neither \<open>id\<close> nor \<open>quantity\<close>, whatever the pair's second
  element is; in the dual shape every entry of \<open>product_out\<close> does, and no entry of
  \<open>product_in\<close> has a \<open>newid\<close>.
\<close>

theorem new_id_precedence:
  assumes "get_context_data lib rows obj = Inr ctx" and "transaction_data obj = JObj td"
    and "map_of td ''new_id'' = Some nid" and "py_truthy nid"
  shows "(\<forall>pl. map_of td ''product'' = Some pl \<longrightarrow>
           (\<exists>es. map_of ctx ''product'' = Some (JList (map JObj es))
              \<and> list_all (\<lambda>e. map_of e ''newid'' = Some nid
                              \<and> map_of e ''id'' = None \<and> map_of e ''quantity'' = None) es))
       \<and> (map_of td ''product'' = None \<longrightarrow>
           (\<exists>ins outs. map_of ctx ''product_in'' = Some (JList (map JObj ins))
              \<and> map_of ctx ''product_out'' = Some (JList (map JObj outs))
              \<and> list_all (\<lambda>e. map_of e ''newid'' = None) ins
              \<and> list_all (\<lambda>e. map_of e ''newid'' = Some nid
                              \<and> map_of e ''id'' = None \<and> map_of e ''quantity'' = None) outs))"
proof (intro conjI allI impI)
  fix pl assume pl: "map_of td ''product'' = Some pl"
  from single_pipeline [OF assms(1,2) pl] obtain v ps es where
    ctx: "ctx = [(''sign'', JBool v), (''product'', JList (map JObj es))]"
    and es: "list_all2 (\<lambda>p e. \<exists>e0 e1 e2.
           make_entry (case map_of td ''new_id'' of Some n \<Rightarrow> n | None \<Rightarrow> JNull) p = Inr e0
         \<and> set_quantity_entry (updated_quantity obj) e0 = Inr e1
         \<and> set_pre_entry lib rows (hash obj) e1 = Inr e2
         \<and> set_post_entry lib rows (hash obj) e2 = Inr e) ps es"
    by blast
  have "list_all2 (\<lambda>p e. map_of e ''newid'' = Some nid
                              \<and> map_of e ''id'' = None \<and> map_of e ''quantity'' = None) ps es"
    using es
  proof (rule list_all2_mono)
    fix p e
    assume "\<exists>e0 e1 e2.
           make_entry (case map_of td ''new_id'' of Some n \<Rightarrow> n | None \<Rightarrow> JNull) p = Inr e0
         \<and> set_quantity_entry (updated_quantity obj) e0 = Inr e1
         \<and> set_pre_entry lib rows (hash obj) e1 = Inr e2
         \<and> set_post_entry lib rows (hash obj) e2 = Inr e"
    then obtain e0 e1 e2 where
      "make_entry nid p = Inr e0"
      "set_quantity_entry (updated_quantity obj) e0 = Inr e1"
      "set_pre_entry lib rows (hash obj) e1 = Inr e2"
      "set_post_entry lib rows (hash obj) e2 = Inr e"
      using assms(3) by auto
    from full_entry_maps [OF this] assms(4)
    show "map_of e ''newid'' = Some nid \<and> map_of e ''id'' = None \<and> map_of e ''quantity'' = None"
      by auto
  qed
  then have "list_all (\<lambda>e. map_of e ''newid'' = Some nid
                              \<and> map_of e ''id'' = None \<and> map_of e ''quantity'' = None) es"
    by (rule list_all2_right)
  with ctx show "\<exists>es. map_of ctx ''product'' = Some (JList (map JObj es))
              \<and> list_all (\<lambda>e. map_of e ''newid'' = Some nid
                              \<and> map_of e ''id'' = None \<and> map_of e ''quantity'' = None) es"
    by auto
next
  assume none: "map_of td ''product'' = None"
  from dual_pipeline [OF assms(1,2) none] obtain v pin pout ps_in ps_out ins outs
    where ctx: "ctx = [(''sign'', JBool v), (''product_in'', JList (map JObj ins)),
              (''product_out'', JList (map JObj outs))]"
    and ins: "list_all2 (\<lambda>p e. \<exists>e0 e1.
           make_entry JNull p = Inr e0
         \<and> set_quantity_entry (updated_quantity obj) e0 = Inr e1
         \<and> set_pre_entry lib rows (hash obj) e1 = Inr e) ps_in ins"
    and outs: "list_all2 (\<lambda>p e. \<exists>e0.
           make_entry (case map_of td ''new_id'' of Some n \<Rightarrow> n | None \<Rightarrow> JNull) p = Inr e0
         \<and> set_post_entry lib rows (hash obj) e0 = Inr e) ps_out outs"
    by blast
  have "list_all2 (\<lambda>p e. map_of e ''newid'' = None) ps_in ins"
    using ins
  proof (rule list_all2_mono)
    fix p e
    assume "\<exists>e0 e1.
           make_entry JNull p = Inr e0
         \<and> set_quantity_entry (updated_quantity obj) e0 = Inr e1
         \<and> set_pre_entry lib rows (hash obj) e1 = Inr e"
    then obtain e0 e1 where
      "make_entry JNull p = Inr e0"
      "set_quantity_entry (updated_quantity obj) e0 = Inr e1"
      "set_pre_entry lib rows (hash obj) e1 = Inr e"
      by blast
    from in_entry_maps [OF this] show "map_of e ''newid'' = None"
      by auto
  qed
  then have i: "list_all (\<lambda>e. map_of e ''newid'' = None) ins"
    by (rule list_all2_right)
  have "list_all2 (\<lambda>p e. map_of e ''newid'' = Some nid
                              \<and> map_of e ''id'' = None \<and> map_of e ''quantity'' = None) ps_out outs"
    using outs
  proof (rule list_all2_mono)
    fix p e
    assume "\<exists>e0.
           make_entry (case map_of td ''new_id'' of Some n \<Rightarrow> n | None \<Rightarrow> JNull) p = Inr e0
         \<and> set_post_entry lib rows (hash obj) e0 = Inr e"
    then obtain e0 where
      "make_entry nid p = Inr e0"
      "set_post_entry lib rows (hash obj) e0 = Inr e"
      using assms(3) by auto
    from out_entry_maps [OF this] assms(4)
    show "map_of e ''newid'' = Some nid \<and> map_of e ''id'' = None \<and> map_of e ''quantity'' = None"
      by auto
  qed
  then have o: "list_all (\<lambda>e. map_of e ''newid'' = Some nid
                              \<and> map_of e ''id'' = None \<and> map_of e ''quantity'' = None) outs"
    by (rule list_all2_right)
  have c1: "map_of ctx ''product_in'' = Some (JList (map JObj ins))"
    and c2: "map_of ctx ''product_out'' = Some (JList (map JObj outs))"
    by (simp_all add: ctx)
  from c1 c2 i o
  show "\<exists>ins outs. map_of ctx ''product_in'' = Some (JList (map JObj ins))
              \<and> map_of ctx ''product_out'' = Some (JList (map JObj outs))
              \<and> list_all (\<lambda>e. map_of e ''newid'' = None) ins
              \<and> list_all (\<lambda>e. map_of e ''newid'' = Some nid
                              \<and> map_of e ''id'' = None \<and> map_of e ''quantity'' = None) outs"
    by blast
qed

theorem new_id_precedence_witness:
  "transaction_data tx_sorted =
      JObj [(''product'', JList [JList [JStr ''P1'', JNull]]), (''new_id'', JStr ''N1'')]
   \<and> py_truthy (JStr ''N1'')
   \<and> get_context_data example_library link_rows tx_sorted =
       Inr [(''sign'', JBool False),
            (''product'', JList [JObj [(''product'', JStr ''P1''), (''newid'', JStr ''N1''),
                                       (''pre'', JList []), (''post'', JList [])]])]
   \<and> get_context_data example_library link_rows tx_dual_newid =
       Inr [(''sign'', JBool False),
          (''product_in'', JList [JObj [(''product'', JStr ''P''), (''quantity'', JInt 42),
                                        (''pre'', JList [JStr ''A''])]]),
          (''product_out'', JList [JObj [(''product'', JStr ''P''), (''newid'', JStr ''N2''),
                                         (''post'', JList [JStr ''C''])]])]"
proof -
  have a: "transaction_data tx_sorted =
      JObj [(''product'', JList [JList [JStr ''P1'', JNull]]), (''new_id'', JStr ''N1'')]"
    by (simp add: tx_sorted_def)
  have b: "transaction_data tx_dual_newid =
      JObj [(''product_in'', JList [JList [JStr ''P'', JNull]]),
            (''product_out'', JList [JList [JStr ''P'', JStr ''old-id'']]),
            (''new_id'', JStr ''N2'')]"
    by (simp add: tx_dual_newid_def)
  show ?thesis
    using new_id_precedence [OF context_tx_sorted a, of "JStr ''N1''"]
      new_id_precedence [OF context_tx_dual_newid b, of "JStr ''N2''"]
      a context_tx_sorted context_tx_dual_newid
    by simp
qed

lemma verify_tx_null_quantity: "verify_sign example_library tx_null_quantity = Inr False"
  by (simp add: tx_null_quantity_def example_verify_defs)

lemma verify_tx_seven: "verify_sign example_library (tx_seven\<lparr>updated_quantity := uq\<rparr>) = Inr False"
  by (simp add: tx_seven_def example_verify_defs)

lemma context_tx_null_quantity:
  "get_context_data example_library link_rows tx_null_quantity =
     Inr [(''sign'', JBool False),
          (''product'', JList [JObj [(''product'', JStr ''P1''), (''quantity'', JInt 42),
                                     (''pre'', JList []), (''post'', JList [])]])]"
  by (simp add: get_context_data_def verify_tx_null_quantity)
     (simp add: view_defs tx_null_quantity_def tx_B_def link_rows_def)

lemma context_tx_seven:
  "get_context_data example_library link_rows (tx_seven\<lparr>updated_quantity := uq\<rparr>) =
     Inr [(''sign'', JBool False),
          (''product'', JList [JObj [(''product'', JStr ''P1''), (''quantity'', JInt 7),
                                     (''pre'', JList []), (''post'', JList [])]])]"
  by (simp add: get_context_data_def verify_tx_seven)
     (simp add: view_defs tx_seven_def tx_B_def link_rows_def)

text \<open>
  C7, as stated, fails: in the dual shape \<open>get_context_data\<close> passes only
  \<open>product_in\<close> to \<open>set_quantity\<close>. An entry of \<open>product_out\<close> whose pair carries
  \<open>null\<close> keeps \<open>None\<close> as its quantity although the quantity-resolution map has a
  value for its product code.
\<close>

theorem product_out_quantity_counterexample:
  "transaction_data tx_dual =
      JObj [(''product_in'', JList [JList [JStr ''P'', JNull]]),
            (''product_out'', JList [JList [JStr ''P'', JNull]])]
   \<and> updated_quantity tx_dual = JObj [(''P'', JInt 42)]
   \<and> get_context_data example_library link_rows tx_dual =
     Inr [(''sign'', JBool False),
          (''product_in'', JList [JObj [(''product'', JStr ''P''), (''quantity'', JInt 42),
                                        (''pre'', JList [JStr ''A''])]]),
          (''product_out'', JList [JObj [(''product'', JStr ''P''), (''quantity'', JNull),
                                         (''post'', JList [JStr ''C''])]])]"
  using context_tx_dual by (simp add: tx_dual_def)

text \<open>
  C7, amended. When \<open>get_context_data\<close> returns: for each entry of the \<open>product\<close>
  list when no truthy \<open>new_id\<close> applies, and for each entry of \<open>product_in\<close>, built
  from a pair whose second element \<open>q\<close> is not a string, the entry's quantity is
  \<open>q\<close> itself when \<open>q\<close> is not \<open>None\<close>, whatever the quantity-resolution map
  holds, and is the map's value under the entry's product code when \<open>q\<close> is \<open>None\<close>.
  The entries of \<open>product_out\<close> are not resolved: their quantity is the pair's second
  element as it is.
\<close>

theorem quantity_resolution:
  assumes "get_context_data lib rows obj = Inr ctx" and "transaction_data obj = JObj td"
  shows "(\<forall>pl. map_of td ''product'' = Some pl \<longrightarrow>
           \<not> py_truthy (case map_of td ''new_id'' of Some n \<Rightarrow> n | None \<Rightarrow> JNull) \<longrightarrow>
           (\<exists>ps es. py_iter pl = Inr ps
              \<and> map_of ctx ''product'' = Some (JList (map JObj es))
              \<and> list_all2 (\<lambda>p e. \<forall>c q. py_getitem p (JInt 0) = Inr c
                      \<and> py_getitem p (JInt 1) = Inr q \<and> \<not> py_is_str q \<longrightarrow>
                    (if q = JNull
                     then \<exists>v. py_getitem (updated_quantity obj) c = Inr v
                              \<and> map_of e ''quantity'' = Some v
                     else map_of e ''quantity'' = Some q)) ps es))
       \<and> (map_of td ''product'' = None \<longrightarrow>
           (\<exists>pin pout ps_in ps_out ins outs.
                map_of td ''product_in'' = Some pin \<and> map_of td ''product_out'' = Some pout
              \<and> py_iter pin = Inr ps_in \<and> py_iter pout = Inr ps_out
              \<and> map_of ctx ''product_in'' = Some (JList (map JObj ins))
              \<and> map_of ctx ''product_out'' = Some (JList (map JObj outs))
              \<and> list_all2 (\<lambda>p e. \<forall>c q. py_getitem p (JInt 0) = Inr c
                      \<and> py_getitem p (JInt 1) = Inr q \<and> \<not> py_is_str q \<longrightarrow>
                    (if q = JNull
                     then \<exists>v. py_getitem (updated_quantity obj) c = Inr v
                              \<and> map_of e ''quantity'' = Some v
                     else map_of e ''quantity'' = Some q)) ps_in ins
              \<and> (\<not> py_truthy (case map_of td ''new_id'' of Some n \<Rightarrow> n | None \<Rightarrow> JNull) \<longrightarrow>
                 list_all2 (\<lambda>p e. \<forall>q. py_getitem p (JInt 1) = Inr q \<and> \<not> py_is_str q \<longrightarrow>
                    map_of e ''quantity'' = Some q) ps_out outs)))"
proof (intro conjI allI impI)
  fix pl assume pl: "map_of td ''product'' = Some pl"
    and nt: "\<not> py_truthy (case map_of td ''new_id'' of Some n \<Rightarrow> n | None \<Rightarrow> JNull)"
  from single_pipeline [OF assms(1,2) pl] obtain v ps es where ps: "py_iter pl = Inr ps"
    and ctx: "ctx = [(''sign'', JBool v), (''product'', JList (map JObj es))]"
    and es: "list_all2 (\<lambda>p e. \<exists>e0 e1 e2.
           make_entry (case map_of td ''new_id'' of Some n \<Rightarrow> n | None \<Rightarrow> JNull) p = Inr e0
         \<and> set_quantity_entry (updated_quantity obj) e0 = Inr e1
         \<and> set_pre_entry lib rows (hash obj) e1 = Inr e2
         \<and> set_post_entry lib rows (hash obj) e2 = Inr e) ps es"
    by blast
  have "list_all2 (\<lambda>p e. \<forall>c q. py_getitem p (JInt 0) = Inr c
                      \<and> py_getitem p (JInt 1) = Inr q \<and> \<not> py_is_str q \<longrightarrow>
                    (if q = JNull
                     then \<exists>v. py_getitem (updated_quantity obj) c = Inr v
                              \<and> map_of e ''quantity'' = Some v
                     else map_of e ''quantity'' = Some q)) ps es"
    using es
  proof (rule list_all2_mono)
    fix p e
    assume "\<exists>e0 e1 e2.
           make_entry (case map_of td ''new_id'' of Some n \<Rightarrow> n | None \<Rightarrow> JNull) p = Inr e0
         \<and> set_quantity_entry (updated_quantity obj) e0 = Inr e1
         \<and> set_pre_entry lib rows (hash obj) e1 = Inr e2
         \<and> set_post_entry lib rows (hash obj) e2 = Inr e"
    then obtain e0 e1 e2 where
      "make_entry (case map_of td ''new_id'' of Some n \<Rightarrow> n | None \<Rightarrow> JNull) p = Inr e0"
      "set_quantity_entry (updated_quantity obj) e0 = Inr e1"
      "set_pre_entry lib rows (hash obj) e1 = Inr e2"
      "set_post_entry lib rows (hash obj) e2 = Inr e"
      by blast
    from full_entry_maps [OF this] nt
    show "\<forall>c q. py_getitem p (JInt 0) = Inr c
                      \<and> py_getitem p (JInt 1) = Inr q \<and> \<not> py_is_str q \<longrightarrow>
                    (if q = JNull
                     then \<exists>v. py_getitem (updated_quantity obj) c = Inr v
                              \<and> map_of e ''quantity'' = Some v
                     else map_of e ''quantity'' = Some q)"
      by auto
  qed
  moreover have "map_of ctx ''product'' = Some (JList (map JObj es))"
    by (simp add: ctx)
  moreover note ps
  ultimately
  show "\<exists>ps es. py_iter pl = Inr ps
              \<and> map_of ctx ''product'' = Some (JList (map JObj es))
              \<and> list_all2 (\<lambda>p e. \<forall>c q. py_getitem p (JInt 0) = Inr c
                      \<and> py_getitem p (JInt 1) = Inr q \<and> \<not> py_is_str q \<longrightarrow>
                    (if q = JNull
                     then \<exists>v. py_getitem (updated_quantity obj) c = Inr v
                              \<and> map_of e ''quantity'' = Some v
                     else map_of e ''quantity'' = Some q)) ps es"
    by blast
next
  assume none: "map_of td ''product'' = None"
  from dual_pipeline [OF assms(1,2) none] obtain v pin pout ps_in ps_out ins outs
    where pin: "map_of td ''product_in'' = Some pin" and pout: "map_of td ''product_out'' = Some pout"
    and ps_in: "py_iter pin = Inr ps_in" and ps_out: "py_iter pout = Inr ps_out"
    and ctx: "ctx = [(''sign'', JBool v), (''product_in'', JList (map JObj ins)),
              (''product_out'', JList (map JObj outs))]"
    and ins: "list_all2 (\<lambda>p e. \<exists>e0 e1.
           make_entry JNull p = Inr e0
         \<and> set_quantity_entry (updated_quantity obj) e0 = Inr e1
         \<and> set_pre_entry lib rows (hash obj) e1 = Inr e) ps_in ins"
    and outs: "list_all2 (\<lambda>p e. \<exists>e0.
           make_entry (case map_of td ''new_id'' of Some n \<Rightarrow> n | None \<Rightarrow> JNull) p = Inr e0
         \<and> set_post_entry lib rows (hash obj) e0 = Inr e) ps_out outs"
    by blast
  have i: "list_all2 (\<lambda>p e. \<forall>c q. py_getitem p (JInt 0) = Inr c
                      \<and> py_getitem p (JInt 1) = Inr q \<and> \<not> py_is_str q \<longrightarrow>
                    (if q = JNull
                     then \<exists>v. py_getitem (updated_quantity obj) c = Inr v
                              \<and> map_of e ''quantity'' = Some v
                     else map_of e ''quantity'' = Some q)) ps_in ins"
    using ins
  proof (rule list_all2_mono)
    fix p e
    assume "\<exists>e0 e1.
           make_entry JNull p = Inr e0
         \<and> set_quantity_entry (updated_quantity obj) e0 = Inr e1
         \<and> set_pre_entry lib rows (hash obj) e1 = Inr e"
    then obtain e0 e1 where
      "make_entry JNull p = Inr e0"
      "set_quantity_entry (updated_quantity obj) e0 = Inr e1"
      "set_pre_entry lib rows (hash obj) e1 = Inr e"
      by blast
    from in_entry_maps [OF this]
    show "\<forall>c q. py_getitem p (JInt 0) = Inr c
                      \<and> py_getitem p (JInt 1) = Inr q \<and> \<not> py_is_str q \<longrightarrow>
                    (if q = JNull
                     then \<exists>v. py_getitem (updated_quantity obj) c = Inr v
                              \<and> map_of e ''quantity'' = Some v
                     else map_of e ''quantity'' = Some q)"
      by auto
  qed
  have o: "list_all2 (\<lambda>p e. \<forall>q. py_getitem p (JInt 1) = Inr q \<and> \<not> py_is_str q \<longrightarrow>
                    map_of e ''quantity'' = Some q) ps_out outs"
    if nt: "\<not> py_truthy (case map_of td ''new_id'' of Some n \<Rightarrow> n | None \<Rightarrow> JNull)"
    using outs
  proof (rule list_all2_mono)
    fix p e
    assume "\<exists>e0.
           make_entry (case map_of td ''new_id'' of Some n \<Rightarrow> n | None \<Rightarrow> JNull) p = Inr e0
         \<and> set_post_entry lib rows (hash obj) e0 = Inr e"
    then obtain e0 where
      "make_entry (case map_of td ''new_id'' of Some n \<Rightarrow> n | None \<Rightarrow> JNull) p = Inr e0"
      "set_post_entry lib rows (hash obj) e0 = Inr e"
      by blast
    from out_entry_maps [OF this] nt
    show "\<forall>q. py_getitem p (JInt 1) = Inr q \<and> \<not> py_is_str q \<longrightarrow>
                    map_of e ''quantity'' = Some q"
      by auto
  qed
  have c1: "map_of ctx ''product_in'' = Some (JList (map JObj ins))"
    and c2: "map_of ctx ''product_out'' = Some (JList (map JObj outs))"
    by (simp_all add: ctx)
  from pin pout ps_in ps_out c1 c2 i o
  show "\<exists>pin pout ps_in ps_out ins outs.
                map_of td ''product_in'' = Some pin \<and> map_of td ''product_out'' = Some pout
              \<and> py_iter pin = Inr ps_in \<and> py_iter pout = Inr ps_out
              \<and> map_of ctx ''product_in'' = Some (JList (map JObj ins))
              \<and> map_of ctx ''product_out'' = Some (JList (map JObj outs))
              \<and> list_all2 (\<lambda>p e. \<forall>c q. py_getitem p (JInt 0) = Inr c
                      \<and> py_getitem p (JInt 1) = Inr q \<and> \<not> py_is_str q \<longrightarrow>
                    (if q = JNull
                     then \<exists>v. py_getitem (updated_quantity obj) c = Inr v
                              \<and> map_of e ''quantity'' = Some v
                     else map_of e ''quantity'' = Some q)) ps_in ins
              \<and> (\<not> py_truthy (case map_of td ''new_id'' of Some n \<Rightarrow> n | None \<Rightarrow> JNull) \<longrightarrow>
                 list_all2 (\<lambda>p e. \<forall>q. py_getitem p (JInt 1) = Inr q \<and> \<not> py_is_str q \<longrightarrow>
                    map_of e ''quantity'' = Some q) ps_out outs)"
    by blast
qed

theorem quantity_resolution_witness:
  "transaction_data tx_null_quantity = JObj [(''product'', JList [JList [JStr ''P1'', JNull]])]
   \<and> updated_quantity tx_null_quantity = JObj [(''P1'', JInt 42)]
   \<and> get_context_data example_library link_rows tx_null_quantity =
       Inr [(''sign'', JBool False),
            (''product'', JList [JObj [(''product'', JStr ''P1''), (''quantity'', JInt 42),
                                       (''pre'', JList []), (''post'', JList [])]])]
   \<and> transaction_data tx_seven = JObj [(''product'', JList [JList [JStr ''P1'', JInt 7]])]
   \<and> get_context_data example_library link_rows (tx_seven\<lparr>updated_quantity := JNull\<rparr>) =
       Inr [(''sign'', JBool False),
            (''product'', JList [JObj [(''product'', JStr ''P1''), (''quantity'', JInt 7),
                                       (''pre'', JList []), (''post'', JList [])]])]
   \<and> get_context_data example_library link_rows (tx_seven\<lparr>updated_quantity := JObj [(''P1'', JInt 42)]\<rparr>) =
       Inr [(''sign'', JBool False),
            (''product'', JList [JObj [(''product'', JStr ''P1''), (''quantity'', JInt 7),
                                       (''pre'', JList []), (''post'', JList [])]])]"
proof -
  have a: "transaction_data tx_null_quantity = JObj [(''product'', JList [JList [JStr ''P1'', JNull]])]"
    and a': "updated_quantity tx_null_quantity = JObj [(''P1'', JInt 42)]"
    by (simp_all add: tx_null_quantity_def)
  have b: "transaction_data (tx_seven\<lparr>updated_quantity := uq\<rparr>) =
             JObj [(''product'', JList [JList [JStr ''P1'', JInt 7]])]" for uq
    by (simp add: tx_seven_def)
  have b': "transaction_data tx_seven = JObj [(''product'', JList [JList [JStr ''P1'', JInt 7]])]"
    by (simp add: tx_seven_def)
  show ?thesis
    using quantity_resolution [OF context_tx_null_quantity a]
      quantity_resolution [OF context_tx_seven b, of JNull]
      a a' b' context_tx_null_quantity context_tx_seven
    by simp
qed













end
